theory Spec2Isabelle
  imports Complex_Main "HOL-Library.Sublist" "HOL-Library.Log_Nat"
begin

unbundle bit_operations_syntax

section \<open>Characters and Python strings\<close>

text \<open>
  Python strings are modelled as \<open>string\<close> (lists of characters). The four characters
  that cannot be written inside a HOL string literal get names.
\<close>

abbreviation NL :: char where "NL \<equiv> CHR 0x0A"
abbreviation BS :: char where "BS \<equiv> CHR 0x5C"
abbreviation DQ :: char where "DQ \<equiv> CHR 0x22"
abbreviation SQ :: char where "SQ \<equiv> CHR 0x27"

text \<open>
  \<open>py_replace old new s\<close> is Python's \<open>s.replace(old, new)\<close>: one pass from the left,
  the occurrences of \<open>old\<close> found without overlap, the inserted text never scanned
  again. For the empty \<open>old\<close> Python puts \<open>new\<close> before every character and at the end.
\<close>

fun py_replace :: "string \<Rightarrow> string \<Rightarrow> string \<Rightarrow> string" where
  "py_replace old new [] = (if old = [] then new else [])"
| "py_replace old new (c # cs) =
     (if old = [] then new @ c # py_replace old new cs
      else if prefix old (c # cs) then new @ py_replace old new (drop (length old) (c # cs))
      else c # py_replace old new cs)"

text \<open>\<open>occurs p s\<close>: the text \<open>p\<close> stands somewhere in \<open>s\<close> (Python's \<open>p in s\<close>).\<close>

fun occurs :: "string \<Rightarrow> string \<Rightarrow> bool" where
  "occurs p [] = (p = [])"
| "occurs p (c # cs) = (prefix p (c # cs) \<or> occurs p cs)"

text \<open>\<open>ends_with_newline s\<close>: \<open>len(s) and s[-1] == '\n'\<close>.\<close>

definition ends_with_newline :: "string \<Rightarrow> bool" where
  "ends_with_newline s = (s \<noteq> [] \<and> last s = NL)"

section \<open>Phase filter (\<open>C99PreProcessor.process\<close>, translation phases 1 to 3)\<close>

text \<open>
  The replacement table of \<open>__init__\<close>, in the insertion order of the dictionary literal
  (the order in which \<open>_replace_di_trigraph\<close> walks it).
\<close>

definition di_tri_graph_replace_table :: "(string \<times> string) list" where
  "di_tri_graph_replace_table =
     [(''<:'', ''[''), (''>:'', '']''), (''<%'', ''{''), (''>%'', ''}''), (''%:'', ''#''),
      (''??='', ''#''), (''??/'', [BS]), ([CHR ''?'', CHR ''?'', SQ], ''^''), (''??('', ''[''),
      (''??)'', '']''), (''??!'', ''|''), (''??<'', ''{''), (''??>'', ''}''),
      (''??-'', ''~'')]"

definition replace_di_trigraph :: "string \<Rightarrow> string" where
  "replace_di_trigraph file_content =
     foldl (\<lambda>content (di_trigraph, replacing_char). py_replace di_trigraph replacing_char content)
       file_content di_tri_graph_replace_table"

definition join_backslash :: "string \<Rightarrow> string" where
  "join_backslash file_content = py_replace [BS, NL] [] file_content"

text \<open>
  \<open>_strip_comment\<close> is \<open>re.sub(COMMENT_RE, ' ', s)\<close> with
  \<open>COMMENT_RE = \/\*[\s\S]*?\*\/+|//.*\<close>. At each position the first alternative is
  tried first: \<open>/*\<close>, the shortest text up to a \<open>*/\<close> that starts at least two
  characters further, and every \<open>/\<close> that follows it. \<open>find_close\<close> looks for that
  \<open>*/\<close> and returns what is left after the match. The second alternative is \<open>//\<close> and
  the rest of the line (\<open>.\<close> stops before a newline). A match is replaced by one space
  and the scan goes on after it.
\<close>

fun find_close :: "string \<Rightarrow> string option" where
  "find_close (c # d # cs) =
     (if c = CHR ''*'' \<and> d = CHR ''/'' then Some (dropWhile (\<lambda>x. x = CHR ''/'') cs)
      else find_close (d # cs))"
| "find_close cs = None"

lemma find_close_length: "find_close cs = Some r \<Longrightarrow> length r \<le> length cs"
proof (induction cs rule: find_close.induct)
  case (1 c d cs)
  have "length (dropWhile (\<lambda>x. x = CHR ''/'') cs) \<le> length cs"
    by (rule length_dropWhile_le)
  with 1 show ?case by (auto split: if_splits)
qed simp_all

function strip_comment :: "string \<Rightarrow> string" where
  "strip_comment [] = []"
| "strip_comment [c] = [c]"
| "strip_comment (c # d # cs) =
     (if c = CHR ''/'' \<and> d = CHR ''*'' then
        (case find_close cs of
           Some r \<Rightarrow> CHR '' '' # strip_comment r
         | None \<Rightarrow> c # strip_comment (d # cs))
      else if c = CHR ''/'' \<and> d = CHR ''/'' then
        CHR '' '' # strip_comment (dropWhile (\<lambda>x. x \<noteq> NL) cs)
      else c # strip_comment (d # cs))"
  by pat_completeness auto
termination
proof (relation "measure length")
  fix c d :: char and cs r :: string
  assume "find_close cs = Some r"
  then have "length r \<le> length cs" by (rule find_close_length)
  then show "(r, c # d # cs) \<in> measure length" by simp
next
  fix c d :: char and cs :: string
  have "length (dropWhile (\<lambda>x. x \<noteq> NL) cs) \<le> length cs" by (rule length_dropWhile_le)
  then show "(dropWhile (\<lambda>x. x \<noteq> NL) cs, c # d # cs) \<in> measure length" by simp
qed simp_all

definition is_source_file :: "string \<Rightarrow> bool" where
  "is_source_file file_content = ends_with_newline file_content"

text \<open>
  The text handed to the parser by \<open>process\<close>: a newline is appended when the file does
  not end with one, then the three transformations run in the order of the source.
  \<open>before_splice\<close> is the buffer as it enters \<open>_join_backslash\<close>.
\<close>

definition before_splice :: "string \<Rightarrow> string" where
  "before_splice file_content =
     replace_di_trigraph (if is_source_file file_content then file_content else file_content @ [NL])"

definition phase_filter :: "bool \<Rightarrow> string \<Rightarrow> string" where
  "phase_filter keep_comment file_content =
     (let spliced = join_backslash (before_splice file_content)
      in if keep_comment then spliced else strip_comment spliced)"

section \<open>Python values\<close>

text \<open>
  The semantic values of the grammar are Python objects of several types: strings,
  integers (unbounded), floats, booleans, \<open>None\<close>, tuples, lists and the two library
  functions handed to \<open>define_macro\<close> in \<open>__init__\<close>. A finite float is the rational
  number it denotes (the sign of a zero is not kept); \<open>Infinite\<close> stands for the
  non-finite floats.
\<close>

datatype pyfloat = Finite rat | Infinite

datatype pyval =
    PNone
  | PBool bool
  | PInt int
  | PFloat pyfloat
  | PStr string
  | PTuple "pyval list"
  | PList "pyval list"
  | PCallable string

text \<open>
  Exceptions are values. \<open>PyException args\<close> is \<open>Exception(*args)\<close>. Three values of
  the type are not Python exceptions; each says that the model has stopped and nothing
  about what the source does from there. \<open>ParseStopped\<close> marks the token for which the
  generated parser has no action and calls \<open>p_error\<close>: \<open>p_error\<close> only prints, the parser
  generator then gives up the parse so far together with that token and goes on with
  the next one, so the call of the source does return; the model does not follow it.
  \<open>RecursionError\<close> is the model running out of fuel, and \<open>Unmodelled\<close> marks a Python
  operation that is defined but that the model does not compute (float arithmetic,
  \<open>repr\<close>, string formatting).
\<close>

datatype pyerror =
    PyException "pyval list"
  | TypeError
  | ValueError
  | NameError
  | IndexError
  | AttributeError
  | UnboundLocalError
  | ZeroDivisionError
  | OverflowError
  | FileNotFoundError
  | ParseStopped
  | RecursionError
  | Unmodelled

type_synonym 'a result = "pyerror + 'a"

definition bind_result :: "'a result \<Rightarrow> ('a \<Rightarrow> 'b result) \<Rightarrow> 'b result" where
  "bind_result r f = (case r of Inl e \<Rightarrow> Inl e | Inr v \<Rightarrow> f v)"

text \<open>Truth value testing (\<open>bool(x)\<close>, \<open>if x:\<close>).\<close>

fun truthy :: "pyval \<Rightarrow> bool" where
  "truthy PNone = False"
| "truthy (PBool b) = b"
| "truthy (PInt i) = (i \<noteq> 0)"
| "truthy (PFloat (Finite q)) = (q \<noteq> 0)"
| "truthy (PFloat Infinite) = True"
| "truthy (PStr s) = (s \<noteq> [])"
| "truthy (PTuple xs) = (xs \<noteq> [])"
| "truthy (PList xs) = (xs \<noteq> [])"
| "truthy (PCallable f) = True"

text \<open>Booleans are integers in arithmetic.\<close>

fun as_int :: "pyval \<Rightarrow> int option" where
  "as_int (PBool b) = Some (if b then 1 else 0)"
| "as_int (PInt i) = Some i"
| "as_int v = None"

fun is_number :: "pyval \<Rightarrow> bool" where
  "is_number (PBool b) = True"
| "is_number (PInt i) = True"
| "is_number (PFloat f) = True"
| "is_number v = False"

fun is_float :: "pyval \<Rightarrow> bool" where
  "is_float (PFloat f) = True"
| "is_float v = False"

subsection \<open>Decimal text of integers\<close>

definition digit_char :: "nat \<Rightarrow> char" where
  "digit_char d = ''0123456789'' ! d"

function show_nat :: "nat \<Rightarrow> string" where
  "show_nat n = (if n < 10 then [digit_char n] else show_nat (n div 10) @ [digit_char (n mod 10)])"
  by pat_completeness auto
termination
  by (relation "measure id") auto

definition show_int :: "int \<Rightarrow> string" where
  "show_int i = (if i < 0 then CHR ''-'' # show_nat (nat (- i)) else show_nat (nat i))"

text \<open>
  \<open>py_str\<close> is \<open>str(x)\<close>, which is also what an f-string does with \<open>{x}\<close>. The texts of
  floats, tuples and lists go through \<open>repr\<close> and are left out of the model.
\<close>

fun py_str :: "pyval \<Rightarrow> string result" where
  "py_str PNone = Inr ''None''"
| "py_str (PBool b) = Inr (if b then ''True'' else ''False'')"
| "py_str (PInt i) = Inr (show_int i)"
| "py_str (PStr s) = Inr s"
| "py_str v = Inl Unmodelled"

text \<open>
  \<open>py_join sep xs\<close> is \<open>sep.join(xs)\<close>: every item must be a string, an item of another
  type raises \<open>TypeError\<close>.
\<close>

fun py_join :: "string \<Rightarrow> pyval list \<Rightarrow> string result" where
  "py_join sep [] = Inr []"
| "py_join sep [PStr s] = Inr s"
| "py_join sep (PStr s # x # xs) =
     (case py_join sep (x # xs) of Inl e \<Rightarrow> Inl e | Inr r \<Rightarrow> Inr (s @ sep @ r))"
| "py_join sep (v # xs) = Inl TypeError"

text \<open>\<open>py_split c s\<close> is \<open>s.split(c)\<close> for a one-character separator.\<close>

fun py_split :: "char \<Rightarrow> string \<Rightarrow> string list" where
  "py_split c [] = [[]]"
| "py_split c (x # xs) =
     (case py_split c xs of
        [] \<Rightarrow> [[x]]
      | w # ws \<Rightarrow> if x = c then [] # w # ws else (x # w) # ws)"

text \<open>\<open>py_slice_1_m1 s\<close> is \<open>s[1:-1]\<close>.\<close>

definition py_slice_1_m1 :: "string \<Rightarrow> string" where
  "py_slice_1_m1 s = butlast (drop 1 s)"

subsection \<open>Floats\<close>

text \<open>
  Python's floats are IEEE 754 binary64 numbers. \<open>round_binary64 a b\<close> is the float
  nearest to the quotient \<open>a / b\<close> of two integers (\<open>b \<noteq> 0\<close>), ties to the even
  significand: \<open>ilog2\<close> finds the binary exponent \<open>e\<close> of the quotient
  (\<open>2^e \<le> |a / b| < 2^(e+1)\<close>), the spacing of the floats around it is
  \<open>2^(e - 52)\<close>, and \<open>2^(-1074)\<close> in the subnormal range. A result of magnitude
  \<open>2^1024\<close> or more is out of range. This is what \<open>int / int\<close> (true division) and
  \<open>float(text)\<close> compute.
\<close>

definition pow2 :: "int \<Rightarrow> rat" where
  "pow2 e = (if 0 \<le> e then 2 ^ nat e else 1 / 2 ^ nat (- e))"

definition round_half_even :: "rat \<Rightarrow> int" where
  "round_half_even x =
     (let f = \<lfloor>x\<rfloor>; d = x - of_int f
      in if d < 1 / 2 then f else if 1 / 2 < d then f + 1 else if even f then f else f + 1)"

definition ilog2 :: "int \<Rightarrow> int \<Rightarrow> int" where
  "ilog2 a b =
     (let e0 = bitlen (abs a) - bitlen (abs b)
      in if pow2 e0 \<le> abs (of_int a / of_int b) then e0 else e0 - 1)"

definition round_binary64 :: "int \<Rightarrow> int \<Rightarrow> pyfloat" where
  "round_binary64 a b =
     (if a = 0 then Finite 0
      else let x = of_int a / of_int b;
               quantum = pow2 (max (ilog2 a b - 52) (- 1074));
               y = of_int (round_half_even (x / quantum)) * quantum
           in if pow2 1024 \<le> abs y then Infinite else Finite y)"

text \<open>
  \<open>int / int\<close>: \<open>ZeroDivisionError\<close> for a zero divisor, \<open>OverflowError\<close> when the
  quotient is too large for a float, else the correctly rounded quotient.
\<close>

definition py_int_truediv :: "int \<Rightarrow> int \<Rightarrow> pyval result" where
  "py_int_truediv a b =
     (if b = 0 then Inl ZeroDivisionError
      else case round_binary64 a b of
             Infinite \<Rightarrow> Inl OverflowError
           | Finite y \<Rightarrow> Inr (PFloat (Finite y)))"

subsection \<open>The operators of the expression evaluator\<close>

text \<open>
  Each function is the Python operator on the values the grammar can hand it. Where
  both operands are integers or booleans the result is exact. Operations on floats,
  \<open>%\<close> on a string (formatting) and comparisons of tuples or lists are defined in
  Python but not computed here (\<open>Unmodelled\<close>); every other combination raises
  \<open>TypeError\<close> in Python.
\<close>

definition other_operands :: "pyval \<Rightarrow> pyval \<Rightarrow> 'a result" where
  "other_operands a b =
     (if is_number a \<and> is_number b then Inl Unmodelled else Inl TypeError)"

definition repeat_seq :: "int \<Rightarrow> 'a list \<Rightarrow> 'a list" where
  "repeat_seq n xs = concat (replicate (nat n) xs)"

definition py_mul :: "pyval \<Rightarrow> pyval \<Rightarrow> pyval result" where
  "py_mul a b =
     (case (as_int a, as_int b) of
        (Some x, Some y) \<Rightarrow> Inr (PInt (x * y))
      | (Some x, None) \<Rightarrow>
          (case b of PStr s \<Rightarrow> Inr (PStr (repeat_seq x s))
                   | PTuple vs \<Rightarrow> Inr (PTuple (repeat_seq x vs))
                   | PList vs \<Rightarrow> Inr (PList (repeat_seq x vs))
                   | _ \<Rightarrow> other_operands a b)
      | (None, Some y) \<Rightarrow>
          (case a of PStr s \<Rightarrow> Inr (PStr (repeat_seq y s))
                   | PTuple vs \<Rightarrow> Inr (PTuple (repeat_seq y vs))
                   | PList vs \<Rightarrow> Inr (PList (repeat_seq y vs))
                   | _ \<Rightarrow> other_operands a b)
      | (None, None) \<Rightarrow> other_operands a b)"

definition py_truediv :: "pyval \<Rightarrow> pyval \<Rightarrow> pyval result" where
  "py_truediv a b =
     (case (as_int a, as_int b) of
        (Some x, Some y) \<Rightarrow> py_int_truediv x y
      | _ \<Rightarrow> other_operands a b)"

definition py_mod :: "pyval \<Rightarrow> pyval \<Rightarrow> pyval result" where
  "py_mod a b =
     (case (as_int a, as_int b) of
        (Some x, Some y) \<Rightarrow> if y = 0 then Inl ZeroDivisionError else Inr (PInt (x mod y))
      | _ \<Rightarrow> (case a of PStr s \<Rightarrow> Inl Unmodelled | _ \<Rightarrow> other_operands a b))"

definition py_add :: "pyval \<Rightarrow> pyval \<Rightarrow> pyval result" where
  "py_add a b =
     (case (as_int a, as_int b) of
        (Some x, Some y) \<Rightarrow> Inr (PInt (x + y))
      | _ \<Rightarrow>
        (case (a, b) of
           (PStr s, PStr t) \<Rightarrow> Inr (PStr (s @ t))
         | (PTuple s, PTuple t) \<Rightarrow> Inr (PTuple (s @ t))
         | (PList s, PList t) \<Rightarrow> Inr (PList (s @ t))
         | _ \<Rightarrow> other_operands a b))"

definition py_sub :: "pyval \<Rightarrow> pyval \<Rightarrow> pyval result" where
  "py_sub a b =
     (case (as_int a, as_int b) of
        (Some x, Some y) \<Rightarrow> Inr (PInt (x - y))
      | _ \<Rightarrow> other_operands a b)"

definition py_lshift :: "pyval \<Rightarrow> pyval \<Rightarrow> pyval result" where
  "py_lshift a b =
     (case (as_int a, as_int b) of
        (Some x, Some y) \<Rightarrow> if y < 0 then Inl ValueError else Inr (PInt (x * 2 ^ nat y))
      | _ \<Rightarrow> Inl TypeError)"

definition py_rshift :: "pyval \<Rightarrow> pyval \<Rightarrow> pyval result" where
  "py_rshift a b =
     (case (as_int a, as_int b) of
        (Some x, Some y) \<Rightarrow> if y < 0 then Inl ValueError else Inr (PInt (x div 2 ^ nat y))
      | _ \<Rightarrow> Inl TypeError)"

text \<open>Strings compare by code point, position by position.\<close>

fun str_less :: "string \<Rightarrow> string \<Rightarrow> bool" where
  "str_less [] [] = False"
| "str_less [] (y # ys) = True"
| "str_less (x # xs) [] = False"
| "str_less (x # xs) (y # ys) =
     (if x = y then str_less xs ys else (of_char x :: nat) < of_char y)"

text \<open>
  \<open>py_compare lt eq a b\<close> is an ordering comparison: \<open>lt\<close> says whether the strict
  order counts as true, \<open>eq\<close> whether equality does (\<open><\<close> is \<open>True, False\<close>, \<open>>=\<close> is
  its negation and is written with swapped operands by the caller).
\<close>

definition py_less :: "pyval \<Rightarrow> pyval \<Rightarrow> bool result" where
  "py_less a b =
     (case (as_int a, as_int b) of
        (Some x, Some y) \<Rightarrow> Inr (x < y)
      | _ \<Rightarrow>
        (case (a, b) of
           (PStr s, PStr t) \<Rightarrow> Inr (str_less s t)
         | (PTuple s, PTuple t) \<Rightarrow> Inl Unmodelled
         | (PList s, PList t) \<Rightarrow> Inl Unmodelled
         | _ \<Rightarrow> other_operands a b))"

definition py_lt :: "pyval \<Rightarrow> pyval \<Rightarrow> pyval result" where
  "py_lt a b = bind_result (py_less a b) (\<lambda>r. Inr (PBool r))"

definition py_gt :: "pyval \<Rightarrow> pyval \<Rightarrow> pyval result" where
  "py_gt a b = bind_result (py_less b a) (\<lambda>r. Inr (PBool r))"

definition py_le :: "pyval \<Rightarrow> pyval \<Rightarrow> pyval result" where
  "py_le a b = bind_result (py_less b a) (\<lambda>r. Inr (PBool (\<not> r)))"

definition py_ge :: "pyval \<Rightarrow> pyval \<Rightarrow> pyval result" where
  "py_ge a b = bind_result (py_less a b) (\<lambda>r. Inr (PBool (\<not> r)))"

text \<open>
  Equality never raises: numbers compare by value, strings by content, values of
  different types are unequal. Equality of floats with other numbers and of tuples or
  lists is not computed.
\<close>

definition py_equal :: "pyval \<Rightarrow> pyval \<Rightarrow> bool result" where
  "py_equal a b =
     (case (as_int a, as_int b) of
        (Some x, Some y) \<Rightarrow> Inr (x = y)
      | _ \<Rightarrow>
        (case (a, b) of
           (PStr s, PStr t) \<Rightarrow> Inr (s = t)
         | (PNone, PNone) \<Rightarrow> Inr True
         | (PCallable f, PCallable g) \<Rightarrow> Inr (f = g)
         | (PTuple s, PTuple t) \<Rightarrow> Inl Unmodelled
         | (PList s, PList t) \<Rightarrow> Inl Unmodelled
         | _ \<Rightarrow> if is_number a \<and> is_number b then Inl Unmodelled else Inr False))"

definition py_eq :: "pyval \<Rightarrow> pyval \<Rightarrow> pyval result" where
  "py_eq a b = bind_result (py_equal a b) (\<lambda>r. Inr (PBool r))"

definition py_ne :: "pyval \<Rightarrow> pyval \<Rightarrow> pyval result" where
  "py_ne a b = bind_result (py_equal a b) (\<lambda>r. Inr (PBool (\<not> r)))"

text \<open>
  The bitwise operators: on two booleans the result is a boolean, on integers (a
  boolean counting as 0 or 1) the two's complement operation of unbounded width.
\<close>

definition py_bitop :: "(bool \<Rightarrow> bool \<Rightarrow> bool) \<Rightarrow> (int \<Rightarrow> int \<Rightarrow> int) \<Rightarrow> pyval \<Rightarrow> pyval \<Rightarrow> pyval result" where
  "py_bitop fb fi a b =
     (case (a, b) of
        (PBool x, PBool y) \<Rightarrow> Inr (PBool (fb x y))
      | _ \<Rightarrow>
        (case (as_int a, as_int b) of
           (Some x, Some y) \<Rightarrow> Inr (PInt (fi x y))
         | _ \<Rightarrow> Inl TypeError))"

definition py_bitand :: "pyval \<Rightarrow> pyval \<Rightarrow> pyval result" where
  "py_bitand = py_bitop (\<lambda>x y. x \<and> y) (\<lambda>x y. x AND y)"

definition py_bitxor :: "pyval \<Rightarrow> pyval \<Rightarrow> pyval result" where
  "py_bitxor = py_bitop (\<lambda>x y. x \<noteq> y) (\<lambda>x y. x XOR y)"

definition py_bitor :: "pyval \<Rightarrow> pyval \<Rightarrow> pyval result" where
  "py_bitor = py_bitop (\<lambda>x y. x \<or> y) (\<lambda>x y. x OR y)"

section \<open>Macros (\<open>intermediate_representation.Macro\<close>)\<close>

text \<open>
  The fields of \<open>Macro\<close>. \<open>m_arg_list\<close> is \<open>None\<close> or a list; \<open>m_callback\<close> is \<open>None\<close> or
  the name of a callable.
\<close>

record Macro =
  m_name :: string
  m_replacement :: pyval
  m_arg_list :: "pyval list option"
  m_variadic :: bool
  m_callback :: "string option"
  has_been_expanded :: bool

text \<open>\<open>Macro.__init__(name, replacement, arg_list, variadic, callback)\<close>.\<close>

definition Macro_init :: "string \<Rightarrow> pyval \<Rightarrow> pyval list option \<Rightarrow> bool \<Rightarrow> string option \<Rightarrow> Macro" where
  "Macro_init nm repl args var cb =
     \<lparr>m_name = nm, m_replacement = repl, m_arg_list = args, m_variadic = var,
      m_callback = cb, has_been_expanded = False\<rparr>"

text \<open>
  The loop \<open>for label, arg in zip(self.arg_list, arg_list): replacement =
  replacement.replace(label, arg)\<close>: \<open>replace\<close> exists on strings only, and takes
  strings.
\<close>

fun substitute_args :: "pyval \<Rightarrow> (pyval \<times> pyval) list \<Rightarrow> pyval result" where
  "substitute_args repl [] = Inr repl"
| "substitute_args (PStr r) ((PStr label, PStr arg) # rest) =
     substitute_args (PStr (py_replace label arg r)) rest"
| "substitute_args (PStr r) (other # rest) = Inl TypeError"
| "substitute_args repl (other # rest) = Inl AttributeError"

text \<open>
  \<open>Macro.expand(arg_list)\<close>. The callables of the host (\<open>time.strftime\<close> and the like)
  are a parameter, \<open>host name args\<close>. The result is the replacement and the macro with
  its \<open>has_been_expanded\<close> flag set.
\<close>

definition expand :: "(string \<Rightarrow> pyval list \<Rightarrow> pyval result) \<Rightarrow> Macro \<Rightarrow> pyval list option \<Rightarrow> (pyval \<times> Macro) result" where
  "expand host self arg_list =
     (let done = (\<lambda>repl. Inr (repl, self\<lparr>has_been_expanded := True\<rparr>)) in
      if arg_list \<noteq> None \<and> arg_list \<noteq> Some [] then
        (if \<not> m_variadic self \<and> m_arg_list self = None then Inl TypeError
         else if \<not> m_variadic self \<and> length (the arg_list) \<noteq> length (the (m_arg_list self)) then
           Inl (PyException [PStr ''Number of arguments not matching with expected list length.''])
         else if m_callback self \<noteq> None then
           Inl (PyException [PStr ''Callback macro can't be called with user provided argument list.''])
         else if m_arg_list self = None then Inl TypeError
         else bind_result
                (substitute_args (m_replacement self) (zip (the (m_arg_list self)) (the arg_list)))
                done)
      else if m_callback self \<noteq> None then
        (case m_arg_list self of
           None \<Rightarrow> Inl TypeError
         | Some stored \<Rightarrow>
             bind_result (host (the (m_callback self)) stored)
               (\<lambda>callback_return.
                  case callback_return of
                    PStr s \<Rightarrow> done (PStr ([DQ] @ s @ [DQ]))
                  | _ \<Rightarrow> bind_result (py_str callback_return) (\<lambda>s. done (PStr s))))
      else if m_arg_list self \<noteq> None \<and> m_arg_list self \<noteq> Some [] then
        Inl (PyException [PStr ''Function like macro needs argument list.''])
      else done (m_replacement self))"

section \<open>The engine (\<open>C99PreProcessor\<close>)\<close>

text \<open>
  \<open>lexer_state\<close> holds the two attributes of \<open>C99PreProcessorLexer\<close>. They live on the
  one lexer object of the engine: every clone of the scanner made for an include or a
  rescan runs the same rule methods and so counts on the same \<open>nested_if\<close>.
\<close>

record lexer_state =
  lineno :: int
  nested_if :: int

text \<open>
  The attributes of the engine. \<open>current_file\<close> is \<open>None\<close> for the empty string set by
  \<open>__init__\<close> and \<open>Some path\<close> once \<open>process\<close> has stored a path. \<open>reads\<close> is not in the
  source: it logs the path of every file that \<open>process\<close> reads, oldest first.
\<close>

record engine =
  lexer :: lexer_state
  macro :: "string \<rightharpoonup> Macro"
  headers_table :: "string \<rightharpoonup> string"
  current_file :: "string option"
  stdlib_path :: "string list"
  keep_comment :: bool
  reads :: "string list"

text \<open>
  What the engine asks of its surroundings: the files (a path is a file when it has
  content), \<open>pathlib\<close>'s \<open>Path(file).parent.joinpath(h)\<close> and \<open>Path(dir).joinpath(h)\<close>,
  and the callables of the host.
\<close>

record world =
  files :: "string \<rightharpoonup> string"
  parent_join :: "string \<Rightarrow> string \<Rightarrow> string"
  dir_join :: "string \<Rightarrow> string \<Rightarrow> string"
  host :: "string \<Rightarrow> pyval list \<Rightarrow> pyval result"

text \<open>
  \<open>define_macro(name, replacement, arg_list, variadic)\<close>: the method has no callback
  parameter and passes none to \<open>Macro\<close>, so the macro it stores has \<open>callback = None\<close>.
\<close>

definition define_macro :: "string \<Rightarrow> pyval \<Rightarrow> pyval list option \<Rightarrow> bool \<Rightarrow> engine \<Rightarrow> engine" where
  "define_macro nm repl args var self =
     self\<lparr>macro := (macro self)(nm \<mapsto> Macro_init nm repl args var None)\<rparr>"

definition undef_macro :: "string \<Rightarrow> engine \<Rightarrow> engine" where
  "undef_macro nm self = self\<lparr>macro := (macro self)(nm := None)\<rparr>"

text \<open>
  \<open>expand_macro(name, arg_list)\<close>. When the flag \<open>has_been_expanded\<close> is already set the
  local \<open>replacement\<close> is never bound and the \<open>return\<close> raises.
\<close>

definition expand_macro :: "world \<Rightarrow> string \<Rightarrow> pyval list option \<Rightarrow> engine \<Rightarrow> (pyval \<times> engine) result" where
  "expand_macro w nm arg_list self =
     (case macro self nm of
        None \<Rightarrow> Inl NameError
      | Some m \<Rightarrow>
          if has_been_expanded m then Inl UnboundLocalError
          else bind_result (expand (host w) m arg_list)
                 (\<lambda>(repl, m').
                    Inr (repl, self\<lparr>macro := (macro self)(nm \<mapsto> m'\<lparr>has_been_expanded := False\<rparr>)\<rparr>)))"

text \<open>
  \<open>C99PreProcessor.__init__(stdlib_path, keep_comment)\<close>: the lexer state, the empty
  tables, and the four built-in macros, each registered through \<open>define_macro\<close> with the
  arguments of the source. In \<open>define_macro("__DATE__", time.strftime, arg_list = [...])\<close>
  the second positional argument is the replacement.
\<close>

definition new_engine :: "string list \<Rightarrow> bool \<Rightarrow> engine" where
  "new_engine stdlib keep =
     (define_macro ''__TIME__'' (PCallable ''time.strftime'')
        (Some [PStr ''%H:%M:%S'', PCallable ''time.localtime'']) False
     (define_macro ''__LINE__'' (PInt 1) None False
     (define_macro ''__FILE__'' (PStr []) None False
     (define_macro ''__DATE__'' (PCallable ''time.strftime'')
        (Some [PStr ''%b %d %Y'', PCallable ''time.localtime'']) False
        \<lparr>lexer = \<lparr>lineno = 1, nested_if = 0\<rparr>,
         macro = Map.empty,
         headers_table = Map.empty,
         current_file = None,
         stdlib_path = (if stdlib = [] then [''stdlib/''] else stdlib),
         keep_comment = keep,
         reads = []\<rparr>))))"

section \<open>Semantic actions of the grammar\<close>

text \<open>
  Every action \<open>p_X\<close> of the source is a function of the same name. Its argument \<open>p\<close>
  is the list \<open>p[1:]\<close> of the values of the right-hand side (so \<open>len(p) == 2\<close> in the
  source is a list of one value here); its result is \<open>p[0]\<close>, or the exception it
  raises. An action that reads or changes the engine takes it and, when it changes it,
  returns it. The decorator \<open>debug_production\<close> comes from a module that is not part of
  the sources; it is taken to leave the action as it is.

  An f-string is a list of parts: literal text and values put in with \<open>str\<close>.
\<close>

datatype fpart = FText string | FVal pyval

fun fstring :: "fpart list \<Rightarrow> string result" where
  "fstring [] = Inr []"
| "fstring (FText s # ps) = bind_result (fstring ps) (\<lambda>r. Inr (s @ r))"
| "fstring (FVal v # ps) =
     bind_result (py_str v) (\<lambda>s. bind_result (fstring ps) (\<lambda>r. Inr (s @ r)))"

definition fstring_val :: "fpart list \<Rightarrow> pyval result" where
  "fstring_val ps = bind_result (fstring ps) (\<lambda>s. Inr (PStr s))"

text \<open>\<open>name in self.macro\<close>.\<close>

definition in_macro :: "string \<Rightarrow> engine \<Rightarrow> bool" where
  "in_macro nm self = (macro self nm \<noteq> None)"

text \<open>\<open>not self._lexer.nested_if\<close>.\<close>

definition not_nested :: "engine \<Rightarrow> bool" where
  "not_nested self = (nested_if (lexer self) = 0)"

subsection \<open>Expressions\<close>

fun p_primary_expression :: "world \<Rightarrow> pyval list \<Rightarrow> engine \<Rightarrow> (pyval \<times> engine) result" where
  "p_primary_expression w [PStr ident] self =
     (if in_macro ident self then expand_macro w ident None self
      else Inr (PStr ident, self))"
| "p_primary_expression w p self = Inl IndexError"

fun p_primary_expression2 :: "pyval list \<Rightarrow> pyval result" where
  "p_primary_expression2 [c] = Inr c"
| "p_primary_expression2 p = Inl IndexError"

fun p_primary_expression3 :: "pyval list \<Rightarrow> pyval result" where
  "p_primary_expression3 [l, e, r] = Inr e"
| "p_primary_expression3 p = Inl IndexError"

fun p_unary_expression :: "pyval list \<Rightarrow> engine \<Rightarrow> pyval result" where
  "p_unary_expression [a] self = Inr a"
| "p_unary_expression [a, b] self = Inr (PTuple [a, b])"
| "p_unary_expression [d, l, PStr ident, r] self = Inr (PBool (in_macro ident self))"
| "p_unary_expression p self = Inl IndexError"

fun p_unary_operator :: "pyval list \<Rightarrow> pyval result" where
  "p_unary_operator [a] = Inr a"
| "p_unary_operator p = Inl IndexError"

fun p_multiplicative_expression :: "pyval list \<Rightarrow> pyval result" where
  "p_multiplicative_expression [a] = Inr a"
| "p_multiplicative_expression [a, op, b] =
     (if op = PStr ''*'' then py_mul a b
      else if op = PStr ''/'' then py_truediv a b
      else if op = PStr ''%'' then py_mod a b
      else Inr PNone)"
| "p_multiplicative_expression p = Inl IndexError"

fun p_additive_expression :: "pyval list \<Rightarrow> pyval result" where
  "p_additive_expression [a] = Inr a"
| "p_additive_expression [a, op, b] =
     (if op = PStr ''+'' then py_add a b
      else if op = PStr ''-'' then py_sub a b
      else Inr PNone)"
| "p_additive_expression p = Inl IndexError"

fun p_shift_expression :: "pyval list \<Rightarrow> pyval result" where
  "p_shift_expression [a] = Inr a"
| "p_shift_expression [a, op, b] =
     (if op = PStr ''<<'' then py_lshift a b
      else if op = PStr ''>>'' then py_rshift a b
      else Inr PNone)"
| "p_shift_expression p = Inl IndexError"

fun p_relational_expression :: "pyval list \<Rightarrow> pyval result" where
  "p_relational_expression [a] = Inr a"
| "p_relational_expression [a, op, b] =
     (if op = PStr ''<'' then py_lt a b
      else if op = PStr ''>'' then py_gt a b
      else if op = PStr ''<='' then py_le a b
      else if op = PStr ''>='' then py_ge a b
      else Inr PNone)"
| "p_relational_expression p = Inl IndexError"

fun p_equality_expression :: "pyval list \<Rightarrow> pyval result" where
  "p_equality_expression [a] = Inr a"
| "p_equality_expression [a, op, b] =
     (if op = PStr ''=='' then py_eq a b
      else if op = PStr ''!='' then py_ne a b
      else Inr PNone)"
| "p_equality_expression p = Inl IndexError"

fun p_and_expression :: "pyval list \<Rightarrow> pyval result" where
  "p_and_expression [a] = Inr a"
| "p_and_expression [a, op, b] = py_bitand a b"
| "p_and_expression p = Inl IndexError"

fun p_exclusive_or_expression :: "pyval list \<Rightarrow> pyval result" where
  "p_exclusive_or_expression [a] = Inr a"
| "p_exclusive_or_expression [a, op, b] = py_bitxor a b"
| "p_exclusive_or_expression p = Inl IndexError"

fun p_inclusive_or_expression :: "pyval list \<Rightarrow> pyval result" where
  "p_inclusive_or_expression [a] = Inr a"
| "p_inclusive_or_expression [a, op, b] = py_bitor a b"
| "p_inclusive_or_expression p = Inl IndexError"

text \<open>\<open>p[0] = p[1] and p[3]\<close>.\<close>

fun p_logical_and_expression :: "pyval list \<Rightarrow> pyval result" where
  "p_logical_and_expression [a] = Inr a"
| "p_logical_and_expression [a, op, b] = Inr (if truthy a then b else a)"
| "p_logical_and_expression p = Inl IndexError"

text \<open>\<open>p[0] = p[1] or p[2]\<close>: the second operand of \<open>or\<close> is the operator token.\<close>

fun p_logical_or_expression :: "pyval list \<Rightarrow> pyval result" where
  "p_logical_or_expression [a] = Inr a"
| "p_logical_or_expression [a, op, b] = Inr (if truthy a then a else op)"
| "p_logical_or_expression p = Inl IndexError"

text \<open>
  \<open>p[0] = p[1] if p[2] else p[3]\<close> for the production
  \<open>logical_or_expression '?' conditional_expression ':' conditional_expression\<close>:
  \<open>p[1]\<close> is the condition, \<open>p[2]\<close> the token \<open>?\<close>, \<open>p[3]\<close> the second operand.
\<close>

fun p_conditional_expression :: "pyval list \<Rightarrow> pyval result" where
  "p_conditional_expression [a] = Inr a"
| "p_conditional_expression [a, q, b, c, d] = Inr (if truthy q then a else b)"
| "p_conditional_expression p = Inl IndexError"

fun p_constant_expression :: "pyval list \<Rightarrow> pyval result" where
  "p_constant_expression [a] = Inr a"
| "p_constant_expression p = Inl IndexError"

subsection \<open>Text lines and tokens\<close>

definition p_text_line :: "pyval list \<Rightarrow> pyval result" where
  "p_text_line p = bind_result (py_join '' '' p) (\<lambda>s. Inr (PStr s))"

definition p_conditionally_supported_directive :: "pyval list \<Rightarrow> pyval result" where
  "p_conditionally_supported_directive p = Inr (PStr [NL])"

fun p_identifier_list :: "pyval list \<Rightarrow> pyval result" where
  "p_identifier_list [a] = Inr a"
| "p_identifier_list p = bind_result (py_join [] p) (\<lambda>s. Inr (PStr s))"

fun p_replacement_list :: "pyval list \<Rightarrow> pyval result" where
  "p_replacement_list [a] = Inr a"
| "p_replacement_list p = Inr PNone"

text \<open>\<open>' '.join([str(t) for t in p[1:]])\<close>: here every item goes through \<open>str\<close>.\<close>

fun p_token_list :: "pyval list \<Rightarrow> pyval result" where
  "p_token_list [a] = Inr a"
| "p_token_list [a, b] = fstring_val [FVal a, FText '' '', FVal b]"
| "p_token_list p = Inl IndexError"

fun p_token :: "world \<Rightarrow> pyval list \<Rightarrow> engine \<Rightarrow> (pyval \<times> engine) result" where
  "p_token w [PStr ident] self =
     (if in_macro ident self then expand_macro w ident None self
      else Inr (PStr ident, self))"
| "p_token w p self = Inl IndexError"

fun p_token2 :: "pyval list \<Rightarrow> pyval result" where
  "p_token2 [a] = Inr a"
| "p_token2 p = Inl IndexError"

fun p_operator_punc :: "pyval list \<Rightarrow> pyval result" where
  "p_operator_punc [a] = Inr a"
| "p_operator_punc p = Inl IndexError"

subsection \<open>Groups and control lines\<close>

fun p_preprocessing_file :: "pyval list \<Rightarrow> pyval result" where
  "p_preprocessing_file [g] = Inr g"
| "p_preprocessing_file p = Inr (PStr [])"

fun p_group :: "pyval list \<Rightarrow> pyval result" where
  "p_group [a] = Inr a"
| "p_group [a, b] = fstring_val [FVal a, FVal b]"
| "p_group p = Inl IndexError"

fun p_group_part :: "pyval list \<Rightarrow> pyval result" where
  "p_group_part [a] = Inr a"
| "p_group_part p = Inl IndexError"

fun p_control_line :: "pyval list \<Rightarrow> pyval result" where
  "p_control_line [d, nl] = fstring_val [FVal d, FText [NL]]"
| "p_control_line p = Inl IndexError"

subsection \<open>Conditional sections\<close>

fun p_if_group :: "pyval list \<Rightarrow> pyval result" where
  "p_if_group [i, c, nl] = Inr (PTuple [c, PStr []])"
| "p_if_group [i, c, nl, g] = Inr (PTuple [c, if truthy c then g else PStr []])"
| "p_if_group p = Inl IndexError"

fun p_if_group2 :: "pyval list \<Rightarrow> engine \<Rightarrow> pyval result" where
  "p_if_group2 [i, PStr ident, nl] self = Inr (PTuple [PBool (in_macro ident self), PStr []])"
| "p_if_group2 [i, PStr ident, nl, g] self =
     Inr (PTuple [PBool (in_macro ident self), if in_macro ident self then g else PStr []])"
| "p_if_group2 p self = Inl IndexError"

fun p_if_group3 :: "pyval list \<Rightarrow> engine \<Rightarrow> pyval result" where
  "p_if_group3 [i, PStr ident, nl] self = Inr (PTuple [PBool (\<not> in_macro ident self), PStr []])"
| "p_if_group3 [i, PStr ident, nl, g] self =
     Inr (PTuple [PBool (\<not> in_macro ident self), if in_macro ident self then PStr [] else g])"
| "p_if_group3 p self = Inl IndexError"

fun p_elif_groups :: "pyval list \<Rightarrow> pyval result" where
  "p_elif_groups [g] = Inr (PList [g])"
| "p_elif_groups [PList gs, g] = Inr (PList (gs @ [g]))"
| "p_elif_groups p = Inl IndexError"

fun p_elif_group :: "pyval list \<Rightarrow> pyval result" where
  "p_elif_group [i, c, nl] = Inr (PTuple [c, PStr []])"
| "p_elif_group [i, c, nl, g] = Inr (PTuple [c, if truthy c then g else PStr []])"
| "p_elif_group p = Inl IndexError"

fun p_else_group :: "pyval list \<Rightarrow> pyval result" where
  "p_else_group [e, nl, g] = Inr g"
| "p_else_group p = Inr (PStr [])"

definition p_endif_line :: "pyval list \<Rightarrow> pyval result" where
  "p_endif_line p = Inr (PStr [NL])"

text \<open>
  The four \<open>p_if_section\<close> actions first choose \<open>if_block\<close> and then, when
  \<open>nested_if\<close> is zero, parse it again. The choice is \<open>if_block1\<close> to \<open>if_block4\<close>
  here; the second parse is in the driver below, since it calls the parser.
  \<open>first_true_elif\<close> is the loop over the \<open>elif\<close> groups with its \<open>break\<close>.
\<close>

fun first_true_elif :: "pyval list \<Rightarrow> pyval option" where
  "first_true_elif [] = None"
| "first_true_elif (PTuple [c, g] # rest) = (if truthy c then Some g else first_true_elif rest)"
| "first_true_elif (other # rest) = None"

fun if_block1 :: "pyval list \<Rightarrow> pyval result" where
  "if_block1 [PTuple [c, g], e] = Inr (if truthy c then g else PStr [NL])"
| "if_block1 p = Inl IndexError"

fun if_block2 :: "pyval list \<Rightarrow> pyval result" where
  "if_block2 [PTuple [c, g], PList elifs, e] =
     Inr (if truthy c then g
          else case first_true_elif elifs of Some b \<Rightarrow> b | None \<Rightarrow> PStr [NL])"
| "if_block2 p = Inl IndexError"

fun if_block3 :: "pyval list \<Rightarrow> pyval result" where
  "if_block3 [PTuple [c, g], els, e] = Inr (if truthy c then g else els)"
| "if_block3 p = Inl IndexError"

fun if_block4 :: "pyval list \<Rightarrow> pyval result" where
  "if_block4 [PTuple [c, g], PList elifs, els, e] =
     Inr (if truthy c then g
          else case first_true_elif elifs of Some b \<Rightarrow> b | None \<Rightarrow> els)"
| "if_block4 p = Inl IndexError"

subsection \<open>Directives\<close>

text \<open>
  Each directive runs when \<open>nested_if\<close> is zero and otherwise gives back its own text,
  built by the f-string of the source.
\<close>

fun p_define_directive :: "pyval list \<Rightarrow> engine \<Rightarrow> (pyval \<times> engine) result" where
  "p_define_directive [d, PStr nm, repl] self =
     (if not_nested self then Inr (PStr [NL], define_macro nm repl None False self)
      else bind_result
             (fstring_val [FVal d, FText '' '', FVal (PStr nm), FText '' '', FVal repl])
             (\<lambda>v. Inr (v, self)))"
| "p_define_directive p self = Inl IndexError"

fun p_define_directive_2 :: "pyval list \<Rightarrow> engine \<Rightarrow> (pyval \<times> engine) result" where
  "p_define_directive_2 [d, PStr nm, l, r, repl] self =
     (if not_nested self then Inr (PStr [NL], define_macro nm repl None False self)
      else bind_result
             (fstring_val [FVal d, FText '' '', FVal (PStr nm), FText ''() '', FVal repl])
             (\<lambda>v. Inr (v, self)))"
| "p_define_directive_2 p self = Inl IndexError"

fun p_define_directive_3 :: "pyval list \<Rightarrow> engine \<Rightarrow> (pyval \<times> engine) result" where
  "p_define_directive_3 [d, PStr nm, l, PStr ids, r, repl] self =
     (if not_nested self then
        Inr (PStr [NL],
             define_macro nm repl (Some (map PStr (py_split CHR '','' ids))) False self)
      else bind_result
             (fstring_val [FVal d, FText '' '', FVal (PStr nm), FText ''('', FVal (PStr ids),
                           FText '') '', FVal repl])
             (\<lambda>v. Inr (v, self)))"
| "p_define_directive_3 p self = Inl IndexError"

fun p_define_directive_4 :: "pyval list \<Rightarrow> engine \<Rightarrow> (pyval \<times> engine) result" where
  "p_define_directive_4 [d, PStr nm, l, ell, r, repl] self =
     (if not_nested self then Inr (PStr [NL], define_macro nm repl None True self)
      else bind_result
             (fstring_val [FVal d, FText '' '', FVal (PStr nm), FText ''(...) '', FVal repl])
             (\<lambda>v. Inr (v, self)))"
| "p_define_directive_4 p self = Inl IndexError"

fun p_define_directive_5 :: "pyval list \<Rightarrow> engine \<Rightarrow> (pyval \<times> engine) result" where
  "p_define_directive_5 [d, PStr nm, l, PStr ids, c, ell, r, repl] self =
     (if not_nested self then
        Inr (PStr [NL],
             define_macro nm repl (Some (map PStr (py_split CHR '','' ids))) True self)
      else bind_result
             (fstring_val [FVal d, FText '' '', FVal (PStr nm), FText ''('', FVal (PStr ids),
                           FText '',...) '', FVal repl])
             (\<lambda>v. Inr (v, self)))"
| "p_define_directive_5 p self = Inl IndexError"

text \<open>
  \<open>#error\<close>: at depth zero it raises \<open>Exception()\<close> or \<open>Exception(p[2])\<close>. Deeper, the
  f-string \<open>{p[1]} {p[2] if len(p) == 2 else ""}\<close> reads \<open>p[2]\<close> exactly when the
  production has no \<open>p[2]\<close>.
\<close>

fun p_error_directive :: "pyval list \<Rightarrow> engine \<Rightarrow> pyval result" where
  "p_error_directive [e] self =
     (if not_nested self then Inl (PyException []) else Inl IndexError)"
| "p_error_directive [e, toks] self =
     (if not_nested self then Inl (PyException [toks])
      else fstring_val [FVal e, FText '' '', FText []])"
| "p_error_directive p self = Inl IndexError"

text \<open>
  \<open>#include\<close> at depth zero calls \<open>include\<close> (in the driver); this is the other
  branch.
\<close>

fun p_include_directive_nested :: "pyval list \<Rightarrow> pyval result" where
  "p_include_directive_nested [i, toks] = fstring_val [FVal i, FText '' '', FVal toks]"
| "p_include_directive_nested p = Inl IndexError"

fun p_line_directive :: "pyval list \<Rightarrow> engine \<Rightarrow> pyval result" where
  "p_line_directive [l, toks] self =
     (if not_nested self then Inr (PStr [NL])
      else fstring_val [FVal l, FText '' '', FVal toks])"
| "p_line_directive p self = Inl IndexError"

definition p_pragma_directive :: "pyval list \<Rightarrow> engine \<Rightarrow> pyval result" where
  "p_pragma_directive p self =
     (if not_nested self then Inr (PStr [NL])
      else bind_result (py_join '' '' p) (\<lambda>s. Inr (PStr s)))"

fun p_undef_directive :: "pyval list \<Rightarrow> engine \<Rightarrow> (pyval \<times> engine) result" where
  "p_undef_directive [u, PStr nm] self =
     (if not_nested self then Inr (PStr [NL], undef_macro nm self)
      else bind_result (fstring_val [FVal u, FText '' '', FVal (PStr nm)]) (\<lambda>v. Inr (v, self)))"
| "p_undef_directive p self = Inl IndexError"

section \<open>The lexer (\<open>C99PreProcessorLexer\<close>)\<close>

text \<open>
  Token types: the names of the list \<open>tokens\<close>, \<open>LIT c\<close> for a character of \<open>literals\<close>
  (its type is the character itself), and \<open>EOF\<close> for the end marker the parser sees
  when the scanner has no token left. \<open>UPRAGMA\<close> is \<open>_PRAGMA\<close>.
\<close>

datatype toktype =
    DEFINE | DEFINED | ELIF | ELSE | ENDIF | ERROR | IF | IFDEF | IFNDEF | INCLUDE
  | LINE | PRAGMA | UPRAGMA | UNDEF
  | CONSTANT | HEADER_NAME | DIRECTIVE | IDENTIFIER | STRING_LITERAL | NEWLINE
  | ELLIPSIS | LEFT_ASSIGN | RIGHT_ASSIGN | ADD_ASSIGN | SUB_ASSIGN | MUL_ASSIGN
  | DIV_ASSIGN | MOD_ASSIGN | AND_ASSIGN | XOR_ASSIGN | OR_ASSIGN | LEFT_OP | RIGHT_OP
  | INC_OP | DEC_OP | PTR_OP | AND_OP | OR_OP | LE_OP | GE_OP | EQ_OP | NE_OP
  | HASH_HASH | LPAREN
  | LIT char
  | EOF

record token =
  ttype :: toktype
  tvalue :: pyval

text \<open>The dictionary \<open>reserved\<close>.\<close>

definition reserved :: "(string \<times> toktype) list" where
  "reserved =
     [(''#define'', DEFINE), (''defined'', DEFINED), (''#elif'', ELIF), (''#else'', ELSE),
      (''#endif'', ENDIF), (''#error'', ERROR), (''#if'', IF), (''#ifdef'', IFDEF),
      (''#ifndef'', IFNDEF), (''#include'', INCLUDE), (''#line'', LINE),
      (''#pragma'', PRAGMA), (''_Pragma'', UPRAGMA), (''#undef'', UNDEF)]"

definition literals :: "char list" where
  "literals = '';{},:=()[].&!~-+*/%<>^|?'' @ [DQ] @ ''@#''"

definition t_ignore :: "char list" where
  "t_ignore = [CHR '' '', CHR 0x09]"

subsection \<open>The regular expressions of the rules\<close>

text \<open>
  Each matcher takes the text from the scanning position and gives the length of the
  match of its rule's regular expression there, as Python's \<open>re\<close> finds it (the first
  alternative that matches, greedy repetition, backtracking where it can change the
  outcome). The scanner compiles the rules with \<open>reflags = re.UNICODE\<close>, which takes
  the place of the generator's default flag \<open>re.VERBOSE\<close>: blanks in a pattern are
  literal. Characters are those of ASCII.
\<close>

definition is_digit :: "char \<Rightarrow> bool" where
  "is_digit c = (c \<in> set ''0123456789'')"

definition is_ident_start :: "char \<Rightarrow> bool" where
  "is_ident_start c = (c \<in> set ''abcdefghijklmnopqrstuvwxyzABCDEFGHIJKLMNOPQRSTUVWXYZ_'')"

definition is_ident_char :: "char \<Rightarrow> bool" where
  "is_ident_char c = (is_ident_start c \<or> is_digit c)"

text \<open>\<open>HEX_DIGIT = [a-fA-F-0-9]\<close>: the class holds the minus sign.\<close>

definition is_hex_digit_class :: "char \<Rightarrow> bool" where
  "is_hex_digit_class c = (c \<in> set ''abcdefABCDEF-0123456789'')"

text \<open>\<open>\s\<close> on the ASCII range.\<close>

definition is_space :: "char \<Rightarrow> bool" where
  "is_space c = (c \<in> set [CHR 0x09, CHR 0x0A, CHR 0x0B, CHR 0x0C, CHR 0x0D,
                            CHR 0x1C, CHR 0x1D, CHR 0x1E, CHR 0x1F, CHR 0x20])"

definition run_length :: "(char \<Rightarrow> bool) \<Rightarrow> string \<Rightarrow> nat" where
  "run_length P s = length (takeWhile P s)"

text \<open>\<open>\n+\<close>\<close>

definition m_newline :: "string \<Rightarrow> nat option" where
  "m_newline s = (let n = run_length (\<lambda>c. c = NL) s in if n = 0 then None else Some n)"

text \<open>\<open><[^<>]+>|"[^"]+" \<close> (the second alternative ends with a blank).\<close>

definition m_header_name :: "string \<Rightarrow> nat option" where
  "m_header_name s =
     (case s of
        [] \<Rightarrow> None
      | c # r \<Rightarrow>
          if c = CHR ''<'' then
            (let n = run_length (\<lambda>x. x \<noteq> CHR ''<'' \<and> x \<noteq> CHR ''>'') r
             in if 0 < n \<and> prefix ''>'' (drop n r) then Some (n + 2) else None)
          else if c = DQ then
            (let n = run_length (\<lambda>x. x \<noteq> DQ) r
             in if 0 < n \<and> prefix [DQ, CHR '' ''] (drop n r) then Some (n + 3) else None)
          else None)"

text \<open>\<open>\#[a-zA-Z_][a-zA-Z_0-9]*\<close>\<close>

definition m_directive :: "string \<Rightarrow> nat option" where
  "m_directive s =
     (case s of
        c # d # r \<Rightarrow>
          if c = CHR ''#'' \<and> is_ident_start d then Some (2 + run_length is_ident_char r)
          else None
      | _ \<Rightarrow> None)"

text \<open>\<open>[a-zA-Z_][a-zA-Z_0-9]*\<close>\<close>

definition m_identifier :: "string \<Rightarrow> nat option" where
  "m_identifier s =
     (case s of
        c # r \<Rightarrow> if is_ident_start c then Some (1 + run_length is_ident_char r) else None
      | _ \<Rightarrow> None)"

text \<open>
  \<open>L?"(\\.|[^\\\"])*"\<close>: \<open>string_body\<close> is the part after the opening quote, up to and
  with the closing one. A backslash takes the next character with it unless that is a
  newline.
\<close>

fun string_body :: "string \<Rightarrow> nat option" where
  "string_body [] = None"
| "string_body [c] = (if c = DQ then Some 1 else None)"
| "string_body (c # d # r) =
     (if c = DQ then Some 1
      else if c = BS then (if d = NL then None else map_option (\<lambda>n. n + 2) (string_body r))
      else map_option Suc (string_body (d # r)))"

definition m_string_literal :: "string \<Rightarrow> nat option" where
  "m_string_literal s =
     (case s of
        [] \<Rightarrow> None
      | c # r \<Rightarrow>
          if c = CHR ''L'' then
            (case r of
               [] \<Rightarrow> None
             | d # r' \<Rightarrow> if d = DQ then map_option (\<lambda>n. n + 2) (string_body r') else None)
          else if c = DQ then map_option Suc (string_body r)
          else None)"

text \<open>\<open>E = [Ee][+-]?[0-9]+\<close>, and an optional suffix character.\<close>

definition m_exponent :: "string \<Rightarrow> nat option" where
  "m_exponent s =
     (case s of
        [] \<Rightarrow> None
      | c # r \<Rightarrow>
          if c = CHR ''e'' \<or> c = CHR ''E'' then
            (let k = (if r \<noteq> [] \<and> (hd r = CHR ''+'' \<or> hd r = CHR ''-'') then 1 else 0);
                 n = run_length is_digit (drop k r)
             in if 0 < n then Some (1 + k + n) else None)
          else None)"

definition m_opt :: "nat option \<Rightarrow> nat" where
  "m_opt m = (case m of None \<Rightarrow> 0 | Some n \<Rightarrow> n)"

definition m_suffix :: "string \<Rightarrow> string \<Rightarrow> nat" where
  "m_suffix cls s = (if s \<noteq> [] \<and> hd s \<in> set cls then 1 else 0)"

text \<open>
  \<open>FLOAT_RE\<close>, three alternatives in this order: digits and an exponent; digits (maybe
  none), a point and digits; digits and a point. Each may end with one of \<open>fFlL\<close>.
\<close>

definition m_float :: "string \<Rightarrow> nat option" where
  "m_float s =
     (let n1 = run_length is_digit s; s1 = drop n1 s in
      if 0 < n1 \<and> m_exponent s1 \<noteq> None then
        (let k = n1 + m_opt (m_exponent s1) in Some (k + m_suffix ''fFlL'' (drop k s)))
      else if prefix ''.'' s1 \<and> (0 < run_length is_digit (drop 1 s1) \<or> 0 < n1) then
        (let n2 = run_length is_digit (drop 1 s1);
             k = n1 + 1 + n2;
             k' = k + m_opt (m_exponent (drop k s))
         in Some (k' + m_suffix ''fFlL'' (drop k' s)))
      else None)"

text \<open>\<open>0[xX][a-fA-F-0-9]+[uUlL]?\<close>\<close>

definition m_hex :: "string \<Rightarrow> nat option" where
  "m_hex s =
     (case s of
        c # d # r \<Rightarrow>
          if c = CHR ''0'' \<and> (d = CHR ''x'' \<or> d = CHR ''X'') then
            (let n = run_length is_hex_digit_class r
             in if 0 < n then Some (2 + n + m_suffix ''uUlL'' (drop n r)) else None)
          else None
      | _ \<Rightarrow> None)"

text \<open>\<open>0[0-9]+([uUlL])?|[0-9]+([uUlL])?\<close>: both alternatives take the whole run of digits.\<close>

definition m_integer :: "string \<Rightarrow> nat option" where
  "m_integer s =
     (let n = run_length is_digit s
      in if 0 < n then Some (n + m_suffix ''uUlL'' (drop n s)) else None)"

text \<open>
  \<open>L?'(\\.|[^'])+'\<close>: \<open>literal_body taken s\<close> is the repetition and the closing quote;
  \<open>taken\<close> says that one item has been taken. At a backslash the pair is tried first,
  then the backslash alone; the closing quote is tried last.
\<close>

fun literal_body :: "bool \<Rightarrow> string \<Rightarrow> nat option" where
  "literal_body taken [] = None"
| "literal_body taken (c # r) =
     (let single = (if c = SQ then None else map_option Suc (literal_body True r));
          pair = (if c = BS \<and> r \<noteq> [] \<and> hd r \<noteq> NL
                  then map_option (\<lambda>n. n + 2) (literal_body True (tl r)) else None);
          close = (if taken \<and> c = SQ then Some 1 else None)
      in if pair \<noteq> None then pair else if single \<noteq> None then single else close)"

definition m_literal :: "string \<Rightarrow> nat option" where
  "m_literal s =
     (case s of
        [] \<Rightarrow> None
      | c # r \<Rightarrow>
          if c = CHR ''L'' then
            (case r of
               [] \<Rightarrow> None
             | d # r' \<Rightarrow> if d = SQ then map_option (\<lambda>n. n + 2) (literal_body False r') else None)
          else if c = SQ then map_option Suc (literal_body False r)
          else None)"

text \<open>\<open>(?<!\s)\(\<close>: \<open>prev\<close> is the character in front of the scanning position.\<close>

definition m_lparen :: "char option \<Rightarrow> string \<Rightarrow> nat option" where
  "m_lparen prev s =
     (if prefix ''('' s \<and> (case prev of None \<Rightarrow> True | Some b \<Rightarrow> \<not> is_space b)
      then Some 1 else None)"

text \<open>
  The rules given as strings, in the order in which the generator tries them: by
  falling length of the pattern text, rules of equal length by name.
\<close>

definition operator_rules :: "(string \<times> toktype) list" where
  "operator_rules =
     [(''...'', ELLIPSIS),
      (''--'', DEC_OP), (''##'', HASH_HASH), (''++'', INC_OP), (''||'', OR_OP),
      (''+='', ADD_ASSIGN), (''<<='', LEFT_ASSIGN), (''*='', MUL_ASSIGN), (''|='', OR_ASSIGN),
      (''->'', PTR_OP), (''>>='', RIGHT_ASSIGN), (''^='', XOR_ASSIGN),
      (''&='', AND_ASSIGN), (''&&'', AND_OP), (''/='', DIV_ASSIGN), (''=='', EQ_OP),
      (''>='', GE_OP), (''<<'', LEFT_OP), (''<='', LE_OP), (''%='', MOD_ASSIGN),
      (''!='', NE_OP), (''>>'', RIGHT_OP), (''-='', SUB_ASSIGN)]"

fun m_operator :: "(string \<times> toktype) list \<Rightarrow> string \<Rightarrow> (toktype \<times> nat) option" where
  "m_operator [] s = None"
| "m_operator ((lexeme, ty) # rules) s =
     (if lexeme \<noteq> [] \<and> prefix lexeme s then Some (ty, length lexeme) else m_operator rules s)"

text \<open>
  The master expression: the rules given as functions in the order of their
  definition, then the string rules.
\<close>

datatype rule =
    R_NEWLINE | R_HEADER_NAME | R_DIRECTIVE | R_IDENTIFIER | R_STRING_LITERAL
  | R_FLOAT | R_HEX | R_INTEGER | R_LITERAL | R_LPAREN | R_OPERATOR toktype

fun first_match :: "(rule \<times> nat option) list \<Rightarrow> (rule \<times> nat) option" where
  "first_match [] = None"
| "first_match ((r, None) # rest) = first_match rest"
| "first_match ((r, Some n) # rest) = Some (r, n)"

definition match_rule :: "char option \<Rightarrow> string \<Rightarrow> (rule \<times> nat) option" where
  "match_rule prev s =
     (case first_match
             [(R_NEWLINE, m_newline s), (R_HEADER_NAME, m_header_name s),
              (R_DIRECTIVE, m_directive s), (R_IDENTIFIER, m_identifier s),
              (R_STRING_LITERAL, m_string_literal s), (R_FLOAT, m_float s),
              (R_HEX, m_hex s), (R_INTEGER, m_integer s), (R_LITERAL, m_literal s),
              (R_LPAREN, m_lparen prev s)] of
        Some m \<Rightarrow> Some m
      | None \<Rightarrow> map_option (\<lambda>(ty, n). (R_OPERATOR ty, n)) (m_operator operator_rules s))"

subsection \<open>The rule functions\<close>

text \<open>
  Conversions of a lexeme: \<open>int(text)\<close>, \<open>int(text, 16)\<close> and \<open>float(text)\<close>. In base 10
  the interpreter refuses a text of more than \<open>sys.int_max_str_digits\<close> digits (4300
  unless changed; CPython 3.11 and later) with a \<open>ValueError\<close>; base 16 has no limit.
\<close>

fun index_of :: "char \<Rightarrow> string \<Rightarrow> nat" where
  "index_of c [] = 0"
| "index_of c (x # xs) = (if c = x then 0 else Suc (index_of c xs))"

definition digit_val :: "char \<Rightarrow> nat" where
  "digit_val c = index_of c ''0123456789''"

definition hex_val :: "char \<Rightarrow> nat" where
  "hex_val c =
     (if c \<in> set ''abcdef'' then 10 + index_of c ''abcdef''
      else if c \<in> set ''ABCDEF'' then 10 + index_of c ''ABCDEF''
      else digit_val c)"

definition nat_of_digits :: "string \<Rightarrow> nat" where
  "nat_of_digits s = foldl (\<lambda>a c. 10 * a + digit_val c) 0 s"

definition nat_of_hex_digits :: "string \<Rightarrow> nat" where
  "nat_of_hex_digits s = foldl (\<lambda>a c. 16 * a + hex_val c) 0 s"

definition int_max_str_digits :: nat where
  "int_max_str_digits = 4300"

definition py_int :: "string \<Rightarrow> pyval result" where
  "py_int s =
     (if s \<noteq> [] \<and> list_all is_digit s \<and> length s \<le> int_max_str_digits
      then Inr (PInt (int (nat_of_digits s)))
      else Inl ValueError)"

definition py_int16 :: "string \<Rightarrow> pyval result" where
  "py_int16 s =
     (let body = drop 2 s
      in if body \<noteq> [] \<and> list_all (\<lambda>c. is_hex_digit_class c \<and> c \<noteq> CHR ''-'') body
         then Inr (PInt (int (nat_of_hex_digits body)))
         else Inl ValueError)"

text \<open>
  \<open>float(text)\<close> for a text of the shape the rule \<open>t_FLOAT\<close> matches: digits, a point
  and digits, an exponent, and nothing more (a suffix letter is a \<open>ValueError\<close>). The
  value is the float nearest to the decimal number, infinite when too large.
\<close>

definition py_float :: "string \<Rightarrow> pyval result" where
  "py_float s =
     (let ip = takeWhile is_digit s;
          r1 = dropWhile is_digit s;
          fp = (if prefix ''.'' r1 then takeWhile is_digit (tl r1) else []);
          r2 = (if prefix ''.'' r1 then dropWhile is_digit (tl r1) else r1);
          has_exp = (m_exponent r2 \<noteq> None);
          negative = (has_exp \<and> prefix ''-'' (tl r2));
          signed = (has_exp \<and> (prefix ''-'' (tl r2) \<or> prefix ''+'' (tl r2)));
          ds = (if has_exp then takeWhile is_digit (drop (if signed then 2 else 1) r2) else []);
          r3 = (if has_exp then drop (m_opt (m_exponent r2)) r2 else r2);
          e = (if negative then - int (nat_of_digits ds) else int (nat_of_digits ds));
          m = int (nat_of_digits (ip @ fp));
          k = e - int (length fp)
      in if r3 \<noteq> [] then Inl ValueError
         else if 0 \<le> k then Inr (PFloat (round_binary64 (m * 10 ^ nat k) 1))
         else Inr (PFloat (round_binary64 m (10 ^ nat (- k)))))"

text \<open>
  A rule function gets the lexeme, the state of the lexer object and the line number
  of the scanner (the clone) and gives the token and the two updated. When it raises,
  the lexer object stays as the rule function has left it: the error side of a result
  of the scanner holds the exception and that state.
\<close>

type_synonym 'a lex_result = "(pyerror \<times> lexer_state) + 'a"

definition lookup_reserved :: "string \<Rightarrow> toktype option" where
  "lookup_reserved s = map_of reserved s"

text \<open>
  \<open>t_DIRECTIVE\<close>: a reserved spelling takes its own type; \<open>#if\<close>, \<open>#ifdef\<close> and
  \<open>#ifndef\<close> add one to \<open>nested_if\<close>; \<open>#endif\<close> takes one off and then raises when the
  counter has fallen below zero, so the lexer object keeps the negative counter.
\<close>

definition t_DIRECTIVE :: "string \<Rightarrow> lexer_state \<Rightarrow> (token \<times> lexer_state) lex_result" where
  "t_DIRECTIVE lexeme self =
     (case lookup_reserved lexeme of
        None \<Rightarrow> Inr (\<lparr>ttype = DIRECTIVE, tvalue = PStr lexeme\<rparr>, self)
      | Some ty \<Rightarrow>
          if ty = IF \<or> ty = IFDEF \<or> ty = IFNDEF then
            Inr (\<lparr>ttype = ty, tvalue = PStr lexeme\<rparr>, self\<lparr>nested_if := nested_if self + 1\<rparr>)
          else if ty = ENDIF then
            (let self' = self\<lparr>nested_if := nested_if self - 1\<rparr> in
             if nested_if self' < 0 then
               Inl (PyException [PStr ''Number of #endif doesn't match with number of #if.''],
                    self')
             else Inr (\<lparr>ttype = ty, tvalue = PStr lexeme\<rparr>, self'))
          else Inr (\<lparr>ttype = ty, tvalue = PStr lexeme\<rparr>, self))"

text \<open>
  The rule functions of the constants change nothing before they convert the lexeme:
  when the conversion raises, the lexer object is as it was.
\<close>

definition converted :: "pyval result \<Rightarrow> lexer_state \<Rightarrow> int \<Rightarrow> (token \<times> lexer_state \<times> int) lex_result" where
  "converted r self lno =
     (case r of
        Inl e \<Rightarrow> Inl (e, self)
      | Inr v \<Rightarrow> Inr (\<lparr>ttype = CONSTANT, tvalue = v\<rparr>, self, lno))"

definition apply_rule :: "rule \<Rightarrow> string \<Rightarrow> lexer_state \<Rightarrow> int \<Rightarrow> (token \<times> lexer_state \<times> int) lex_result" where
  "apply_rule r lexeme self lno =
     (case r of
        R_NEWLINE \<Rightarrow>
          Inr (\<lparr>ttype = NEWLINE, tvalue = PStr lexeme\<rparr>,
               self\<lparr>lineno := lno + int (length lexeme)\<rparr>, lno + int (length lexeme))
      | R_HEADER_NAME \<Rightarrow> Inr (\<lparr>ttype = HEADER_NAME, tvalue = PStr lexeme\<rparr>, self, lno)
      | R_DIRECTIVE \<Rightarrow>
          (case t_DIRECTIVE lexeme self of
             Inl raised_with \<Rightarrow> Inl raised_with
           | Inr (t, self') \<Rightarrow> Inr (t, self', lno))
      | R_IDENTIFIER \<Rightarrow> Inr (\<lparr>ttype = IDENTIFIER, tvalue = PStr lexeme\<rparr>, self, lno)
      | R_STRING_LITERAL \<Rightarrow> Inr (\<lparr>ttype = STRING_LITERAL, tvalue = PStr lexeme\<rparr>, self, lno)
      | R_FLOAT \<Rightarrow> converted (py_float lexeme) self lno
      | R_HEX \<Rightarrow> converted (py_int16 lexeme) self lno
      | R_INTEGER \<Rightarrow> converted (py_int lexeme) self lno
      | R_LITERAL \<Rightarrow> Inr (\<lparr>ttype = CONSTANT, tvalue = PStr lexeme\<rparr>, self, lno)
      | R_LPAREN \<Rightarrow> Inr (\<lparr>ttype = LPAREN, tvalue = PStr lexeme\<rparr>, self, lno)
      | R_OPERATOR ty \<Rightarrow> Inr (\<lparr>ttype = ty, tvalue = PStr lexeme\<rparr>, self, lno))"

subsection \<open>The scanner\<close>

text \<open>
  The state of one scanner (the generator's lexer object or a clone of it): the text
  left, the character before it (for the look-behind of \<open>t_LPAREN\<close>) and the
  scanner's own line number.
\<close>

record lexbuf =
  prev_char :: "char option"
  rest :: string
  lb_lineno :: int

text \<open>
  \<open>next_token\<close> is the scanner's \<open>token()\<close>: characters of \<open>t_ignore\<close> are passed over,
  then the rules are tried, then the literals; any other character is reported by
  \<open>t_error\<close>, which skips it. A match holds at least the character \<open>c\<close> it starts
  with. The result is \<open>None\<close> at the end of the text.
\<close>

fun next_token :: "lexer_state \<Rightarrow> int \<Rightarrow> char option \<Rightarrow> string \<Rightarrow> (token option \<times> lexer_state \<times> lexbuf) lex_result" where
  "next_token self lno prev [] = Inr (None, self, \<lparr>prev_char = prev, rest = [], lb_lineno = lno\<rparr>)"
| "next_token self lno prev (c # cs) =
     (if c \<in> set t_ignore then next_token self lno (Some c) cs
      else case match_rule prev (c # cs) of
        Some (r, n) \<Rightarrow>
          (let lexeme = c # take (n - 1) cs in
           case apply_rule r lexeme self lno of
             Inl e \<Rightarrow> Inl e
           | Inr (t, self', lno') \<Rightarrow>
               Inr (Some t, self',
                    \<lparr>prev_char = Some (last lexeme), rest = drop (n - 1) cs, lb_lineno = lno'\<rparr>))
      | None \<Rightarrow>
          if c \<in> set literals then
            Inr (Some \<lparr>ttype = LIT c, tvalue = PStr [c]\<rparr>, self,
                 \<lparr>prev_char = Some c, rest = cs, lb_lineno = lno\<rparr>)
          else next_token self lno (Some c) cs)"

definition token_of :: "lexer_state \<Rightarrow> lexbuf \<Rightarrow> (token option \<times> lexer_state \<times> lexbuf) lex_result" where
  "token_of self b = next_token self (lb_lineno b) (prev_char b) (rest b)"

lemma next_token_shorter:
  "next_token self lno prev s = Inr (Some t, self', b) \<Longrightarrow> length (rest b) < length s"
proof (induction s arbitrary: prev)
  case Nil
  then show ?case by simp
next
  case (Cons c cs)
  show ?case
  proof (cases "c \<in> set t_ignore")
    case True
    with Cons.prems have "next_token self lno (Some c) cs = Inr (Some t, self', b)" by simp
    from Cons.IH [OF this] show ?thesis by simp
  next
    case False
    show ?thesis
    proof (cases "match_rule prev (c # cs)")
      case None
      show ?thesis
      proof (cases "c \<in> set literals")
        case True
        with Cons.prems False None have "rest b = cs" by auto
        then show ?thesis by simp
      next
        case nolit: False
        with Cons.prems False None
        have "next_token self lno (Some c) cs = Inr (Some t, self', b)" by simp
        from Cons.IH [OF this] show ?thesis by simp
      qed
    next
      case (Some m)
      obtain r n where m: "m = (r, n)" by (cases m)
      with Cons.prems False Some have "rest b = drop (n - 1) cs"
        by (auto simp: Let_def split: sum.splits)
      then show ?thesis by simp
    qed
  qed
qed

text \<open>
  \<open>scan\<close> is the loop of \<open>tokenize\<close>: it calls \<open>token()\<close> until the text is used up.
  It gives every token with the state of the lexer object after it, and at the end
  the final state, or the exception that stopped the scan with the state it left.
\<close>

function scan :: "lexer_state \<Rightarrow> lexbuf \<Rightarrow> (token \<times> lexer_state) list \<times> lexer_state lex_result" where
  "scan self b =
     (case token_of self b of
        Inl e \<Rightarrow> ([], Inl e)
      | Inr (None, self', b') \<Rightarrow> ([], Inr self')
      | Inr (Some t, self', b') \<Rightarrow>
          (case scan self' b' of (ts, r) \<Rightarrow> ((t, self') # ts, r)))"
  by pat_completeness auto
termination
  by (relation "measure (\<lambda>(self, b). length (rest b))")
     (auto simp: token_of_def dest: next_token_shorter)

text \<open>
  \<open>tokenize(data)\<close> on the lexer object: the list of tokens, or the exception. \<open>lno\<close> is
  the line number the generator's lexer object has reached.
\<close>

definition tokenize :: "lexer_state \<Rightarrow> int \<Rightarrow> string \<Rightarrow> (token list \<times> lexer_state) lex_result" where
  "tokenize self lno data =
     (case scan self \<lparr>prev_char = None, rest = data, lb_lineno = lno\<rparr> of
        (ts, Inl e) \<Rightarrow> Inl e
      | (ts, Inr self') \<Rightarrow> Inr (map fst ts, self'))"

section \<open>The parser\<close>

text \<open>
  The parser is generated from the grammar in the docstrings of the actions (LALR(1),
  no precedence declarations). The model follows the grammar by recursive descent with
  one token of lookahead and runs the actions in the order of the generated parser:
  an action runs when its production is complete, the next token has been read, and
  that token is one the parser accepts after the production (otherwise the parser
  calls \<open>p_error\<close> first, and the model stops with \<open>ParseStopped\<close>). The scanner is
  called on demand, so the counter \<open>nested_if\<close> that an action sees is the one reached
  after the lookahead token.

  \<open>la\<close> is the lookahead token, \<open>buf\<close> the scanner of this parse, \<open>eng\<close> the engine.
\<close>

record pstate =
  la :: token
  buf :: lexbuf
  eng :: engine

text \<open>
  \<open>advance\<close> reads the next token into the lookahead. An exception of the scanner
  leaves the parser and every call around it; a result of the engine keeps the
  exception alone.
\<close>

definition advance :: "pstate \<Rightarrow> pstate result" where
  "advance ps =
     (case token_of (lexer (eng ps)) (buf ps) of
        Inl (e, self') \<Rightarrow> Inl e
      | Inr (tok, self', b') \<Rightarrow>
          Inr (ps\<lparr>la := (case tok of None \<Rightarrow> \<lparr>ttype = EOF, tvalue = PNone\<rparr> | Some t \<Rightarrow> t),
                  buf := b',
                  eng := (eng ps)\<lparr>lexer := self'\<rparr>\<rparr>))"

text \<open>\<open>shift\<close> takes the lookahead token and reads the next one.\<close>

definition shift :: "pstate \<Rightarrow> (pyval \<times> pstate) result" where
  "shift ps = bind_result (advance ps) (\<lambda>ps'. Inr (tvalue (la ps), ps'))"

definition shift_expect :: "toktype \<Rightarrow> pstate \<Rightarrow> (pyval \<times> pstate) result" where
  "shift_expect ty ps = (if ttype (la ps) = ty then shift ps else Inl ParseStopped)"

definition require :: "(toktype \<Rightarrow> bool) \<Rightarrow> pstate \<Rightarrow> 'a result \<Rightarrow> 'a result" where
  "require ok ps r = (if ok (ttype (la ps)) then r else Inl ParseStopped)"

subsection \<open>Sets of token types\<close>

text \<open>The alternatives of \<open>operator_punc\<close> and of \<open>token\<close>.\<close>

fun is_operator_punc :: "toktype \<Rightarrow> bool" where
  "is_operator_punc (LIT c) = (c \<in> set (''=;{},:()[].&!~-+*/%<>^|?'' @ [DQ] @ ''@#''))"
| "is_operator_punc ty =
     (ty \<in> set [AND_OP, MUL_ASSIGN, DIV_ASSIGN, MOD_ASSIGN, ADD_ASSIGN, SUB_ASSIGN, LEFT_ASSIGN,
                RIGHT_ASSIGN, AND_ASSIGN, XOR_ASSIGN, OR_ASSIGN, DEC_OP, ELLIPSIS, EQ_OP, GE_OP,
                INC_OP, LEFT_OP, LE_OP, NE_OP, HASH_HASH, PTR_OP, OR_OP, RIGHT_OP])"

definition token_starter :: "toktype \<Rightarrow> bool" where
  "token_starter ty =
     (ty \<in> set [IDENTIFIER, HEADER_NAME, CONSTANT, STRING_LITERAL] \<or> is_operator_punc ty)"

text \<open>What may follow a token of a token list, and what may start a \<open>group_part\<close>.\<close>

definition token_follow :: "toktype \<Rightarrow> bool" where
  "token_follow ty = (token_starter ty \<or> ty = NEWLINE)"

definition group_starter :: "toktype \<Rightarrow> bool" where
  "group_starter ty =
     (ty \<in> set [DEFINE, ERROR, INCLUDE, LINE, PRAGMA, UPRAGMA, UNDEF, IF, IFDEF, IFNDEF,
                NEWLINE, DIRECTIVE] \<or> token_starter ty)"

text \<open>
  What may follow a \<open>group_part\<close>: the lookahead set of the reductions to
  \<open>control_line\<close>, \<open>text_line\<close>, \<open>if_section\<close> and \<open>group\<close> (the parser has one state for
  each of them, whatever surrounds the group).
\<close>

definition group_follow :: "toktype \<Rightarrow> bool" where
  "group_follow ty = (group_starter ty \<or> ty \<in> set [EOF, ELIF, ELSE, ENDIF])"

definition section_follow :: "toktype \<Rightarrow> bool" where
  "section_follow ty = (ty \<in> set [ELIF, ELSE, ENDIF])"

text \<open>What may follow a primary or unary expression.\<close>

fun expr_follow :: "toktype \<Rightarrow> bool" where
  "expr_follow (LIT c) = (c \<in> set ''*/%+-<>&^|?:)'')"
| "expr_follow ty =
     (ty \<in> set [LEFT_OP, RIGHT_OP, LE_OP, GE_OP, EQ_OP, NE_OP, AND_OP, OR_OP, NEWLINE])"

fun is_unary_operator :: "toktype \<Rightarrow> bool" where
  "is_unary_operator (LIT c) = (c \<in> set ''&*+-~!'')"
| "is_unary_operator ty = False"

text \<open>
  The ten levels of binary operators, tightest first, each with its operator tokens
  and its action.
\<close>

definition level_ops :: "nat \<Rightarrow> toktype list" where
  "level_ops k =
     [[LIT CHR ''*'', LIT CHR ''/'', LIT CHR ''%''],
      [LIT CHR ''+'', LIT CHR ''-''],
      [LEFT_OP, RIGHT_OP],
      [LIT CHR ''<'', LIT CHR ''>'', LE_OP, GE_OP],
      [EQ_OP, NE_OP],
      [LIT CHR ''&''],
      [LIT CHR ''^''],
      [LIT CHR ''|''],
      [AND_OP],
      [OR_OP]] ! k"

definition level_action :: "nat \<Rightarrow> pyval list \<Rightarrow> pyval result" where
  "level_action k =
     [p_multiplicative_expression, p_additive_expression, p_shift_expression,
      p_relational_expression, p_equality_expression, p_and_expression,
      p_exclusive_or_expression, p_inclusive_or_expression, p_logical_and_expression,
      p_logical_or_expression] ! k"

subsection \<open>The driver\<close>

text \<open>
  The parts of the engine that call each other (the parser, \<open>parse\<close>, \<open>process\<close> and
  \<open>include\<close>) are the tasks of one function \<open>run\<close>. A task takes the parser state and
  gives a value and the new state. \<open>run\<close> counts the depth of calls down from its
  fuel; \<open>rec\<close> in the definitions below is \<open>run\<close> with one unit less.
\<close>

datatype task =
    T_parse pyval
  | T_process string
  | T_include pyval
  | T_preprocessing_file
  | T_group
  | T_group_loop pyval
  | T_group_part
  | T_token_list
  | T_token_list_loop pyval
  | T_identifier_list_loop pyval
  | T_constant_expression
  | T_conditional_expression
  | T_level nat
  | T_level_loop nat pyval
  | T_unary_expression
  | T_elif_groups "pyval option"

type_synonym parser = "task \<Rightarrow> pstate \<Rightarrow> (pyval \<times> pstate) result"

text \<open>An action that may change the engine, applied inside a parser state.\<close>

definition with_engine :: "(engine \<Rightarrow> (pyval \<times> engine) result) \<Rightarrow> pstate \<Rightarrow> (pyval \<times> pstate) result" where
  "with_engine act ps = bind_result (act (eng ps)) (\<lambda>(v, e). Inr (v, ps\<lparr>eng := e\<rparr>))"

definition pure_action :: "pyval result \<Rightarrow> pstate \<Rightarrow> (pyval \<times> pstate) result" where
  "pure_action r ps = bind_result r (\<lambda>v. Inr (v, ps))"

subsubsection \<open>Token lists\<close>

text \<open>
  One \<open>token\<close>: the token is shifted, the next one must be able to follow, then
  \<open>p_token\<close> runs for an identifier and \<open>p_token2\<close> (with \<open>p_operator_punc\<close>) for the
  others.
\<close>

definition parse_token :: "world \<Rightarrow> pstate \<Rightarrow> (pyval \<times> pstate) result" where
  "parse_token w ps =
     (if \<not> token_starter (ttype (la ps)) then Inl ParseStopped
      else bind_result (shift ps)
        (\<lambda>(v, ps1). require token_follow ps1
           (if ttype (la ps) = IDENTIFIER then with_engine (p_token w [v]) ps1
            else if is_operator_punc (ttype (la ps)) then
              pure_action (bind_result (p_operator_punc [v]) (\<lambda>v'. p_token2 [v'])) ps1
            else pure_action (p_token2 [v]) ps1)))"

definition do_token_list :: "world \<Rightarrow> parser \<Rightarrow> pstate \<Rightarrow> (pyval \<times> pstate) result" where
  "do_token_list w rec ps =
     bind_result (parse_token w ps)
       (\<lambda>(v, ps1). bind_result (p_token_list [v]) (\<lambda>acc. rec (T_token_list_loop acc) ps1))"

definition do_token_list_loop :: "world \<Rightarrow> parser \<Rightarrow> pyval \<Rightarrow> pstate \<Rightarrow> (pyval \<times> pstate) result" where
  "do_token_list_loop w rec acc ps =
     (if token_starter (ttype (la ps)) then
        bind_result (parse_token w ps)
          (\<lambda>(v, ps1). bind_result (p_token_list [acc, v])
             (\<lambda>acc'. rec (T_token_list_loop acc') ps1))
      else Inr (acc, ps))"

text \<open>\<open>replacement_list\<close>: empty before a newline, else a token list.\<close>

definition parse_replacement_list :: "parser \<Rightarrow> pstate \<Rightarrow> (pyval \<times> pstate) result" where
  "parse_replacement_list rec ps =
     (if ttype (la ps) = NEWLINE then pure_action (p_replacement_list []) ps
      else bind_result (rec T_token_list ps)
             (\<lambda>(v, ps1). pure_action (p_replacement_list [v]) ps1))"

subsubsection \<open>Expressions\<close>

definition do_unary_expression :: "world \<Rightarrow> parser \<Rightarrow> pstate \<Rightarrow> (pyval \<times> pstate) result" where
  "do_unary_expression w rec ps =
     (let ty = ttype (la ps) in
      if ty = IDENTIFIER then
        bind_result (shift ps)
          (\<lambda>(v, ps1). require expr_follow ps1
             (bind_result (with_engine (p_primary_expression w [v]) ps1)
                (\<lambda>(v', ps2). pure_action (p_unary_expression [v'] (eng ps2)) ps2)))
      else if ty = CONSTANT then
        bind_result (shift ps)
          (\<lambda>(v, ps1). require expr_follow ps1
             (bind_result (p_primary_expression2 [v])
                (\<lambda>v'. pure_action (p_unary_expression [v'] (eng ps1)) ps1)))
      else if ty = LIT CHR ''('' then
        bind_result (shift ps)
          (\<lambda>(l, ps1). bind_result (rec T_constant_expression ps1)
             (\<lambda>(v, ps2). bind_result (shift_expect (LIT CHR '')'') ps2)
                (\<lambda>(r, ps3). require expr_follow ps3
                   (bind_result (p_primary_expression3 [l, v, r])
                      (\<lambda>v'. pure_action (p_unary_expression [v'] (eng ps3)) ps3)))))
      else if is_unary_operator ty then
        bind_result (shift ps)
          (\<lambda>(op, ps1). bind_result (p_unary_operator [op])
             (\<lambda>op'. bind_result (rec T_unary_expression ps1)
                (\<lambda>(v, ps2). pure_action (p_unary_expression [op', v] (eng ps2)) ps2)))
      else if ty = DEFINED then
        bind_result (shift ps)
          (\<lambda>(d, ps1). bind_result (shift_expect (LIT CHR ''('') ps1)
             (\<lambda>(l, ps2). bind_result (shift_expect IDENTIFIER ps2)
                (\<lambda>(i, ps3). bind_result (shift_expect (LIT CHR '')'') ps3)
                   (\<lambda>(r, ps4). require expr_follow ps4
                      (pure_action (p_unary_expression [d, l, i, r] (eng ps4)) ps4)))))
      else Inl ParseStopped)"

text \<open>
  A level of binary operators: the first operand, then as long as the lookahead is an
  operator of the level, the operator, the next operand and the action.
\<close>

definition parse_operand :: "parser \<Rightarrow> nat \<Rightarrow> pstate \<Rightarrow> (pyval \<times> pstate) result" where
  "parse_operand rec k ps = (if k = 0 then rec T_unary_expression ps else rec (T_level (k - 1)) ps)"

definition do_level :: "parser \<Rightarrow> nat \<Rightarrow> pstate \<Rightarrow> (pyval \<times> pstate) result" where
  "do_level rec k ps =
     bind_result (parse_operand rec k ps)
       (\<lambda>(v, ps1). bind_result (level_action k [v]) (\<lambda>v'. rec (T_level_loop k v') ps1))"

definition do_level_loop :: "parser \<Rightarrow> nat \<Rightarrow> pyval \<Rightarrow> pstate \<Rightarrow> (pyval \<times> pstate) result" where
  "do_level_loop rec k acc ps =
     (if ttype (la ps) \<in> set (level_ops k) then
        bind_result (shift ps)
          (\<lambda>(op, ps1). bind_result (parse_operand rec k ps1)
             (\<lambda>(v, ps2). bind_result (level_action k [acc, op, v])
                (\<lambda>acc'. rec (T_level_loop k acc') ps2)))
      else Inr (acc, ps))"

text \<open>
  \<open>conditional_expression\<close> and \<open>constant_expression\<close>. After the condition a \<open>?\<close>
  opens the two branches, with a \<open>:\<close> between them.
\<close>

definition do_conditional_expression :: "parser \<Rightarrow> pstate \<Rightarrow> (pyval \<times> pstate) result" where
  "do_conditional_expression rec ps =
     bind_result (rec (T_level 9) ps)
       (\<lambda>(a, ps1).
          if ttype (la ps1) = LIT CHR ''?'' then
            bind_result (shift ps1)
              (\<lambda>(q, ps2). bind_result (rec T_conditional_expression ps2)
                 (\<lambda>(b, ps3). bind_result (shift_expect (LIT CHR '':'') ps3)
                    (\<lambda>(c, ps4). bind_result (rec T_conditional_expression ps4)
                       (\<lambda>(d, ps5). pure_action (p_conditional_expression [a, q, b, c, d]) ps5))))
          else pure_action (p_conditional_expression [a]) ps1)"

definition do_constant_expression :: "parser \<Rightarrow> pstate \<Rightarrow> (pyval \<times> pstate) result" where
  "do_constant_expression rec ps =
     bind_result (rec T_conditional_expression ps)
       (\<lambda>(v, ps1). pure_action (p_constant_expression [v]) ps1)"

subsubsection \<open>Control lines\<close>

text \<open>
  \<open>identifier_list\<close> inside the parentheses of a function-like \<open>#define\<close>, after its
  first identifier. The loop stops before a \<open>)\<close>, or before the \<open>...\<close> that follows a
  comma.
\<close>

definition do_identifier_list_loop :: "parser \<Rightarrow> pyval \<Rightarrow> pstate \<Rightarrow> (pyval \<times> pstate) result" where
  "do_identifier_list_loop rec acc ps =
     (if ttype (la ps) = LIT CHR '','' then
        bind_result (shift ps)
          (\<lambda>(c, ps1).
             if ttype (la ps1) = IDENTIFIER then
               bind_result (shift ps1)
                 (\<lambda>(i, ps2).
                    if ttype (la ps2) = LIT CHR '','' \<or> ttype (la ps2) = LIT CHR '')'' then
                      bind_result (p_identifier_list [acc, c, i])
                        (\<lambda>acc'. rec (T_identifier_list_loop acc') ps2)
                    else Inl ParseStopped)
             else if ttype (la ps1) = ELLIPSIS then Inr (acc, ps1)
             else Inl ParseStopped)
      else Inr (acc, ps))"

text \<open>
  The five forms of \<open>define_directive\<close>. The lookahead is at \<open>#define\<close>; at the end it is
  at the newline.
\<close>

definition parse_define :: "parser \<Rightarrow> pstate \<Rightarrow> (pyval \<times> pstate) result" where
  "parse_define rec ps =
     bind_result (shift ps)
       (\<lambda>(d, ps1). bind_result (shift_expect IDENTIFIER ps1)
          (\<lambda>(nm, ps2).
             if ttype (la ps2) = LPAREN then
               bind_result (shift ps2)
                 (\<lambda>(l, ps3).
                    if ttype (la ps3) = LIT CHR '')'' then
                      bind_result (shift ps3)
                        (\<lambda>(r, ps4). bind_result (parse_replacement_list rec ps4)
                           (\<lambda>(repl, ps5). with_engine (p_define_directive_2 [d, nm, l, r, repl]) ps5))
                    else if ttype (la ps3) = ELLIPSIS then
                      bind_result (shift ps3)
                        (\<lambda>(ell, ps4). bind_result (shift_expect (LIT CHR '')'') ps4)
                           (\<lambda>(r, ps5). bind_result (parse_replacement_list rec ps5)
                              (\<lambda>(repl, ps6).
                                 with_engine (p_define_directive_4 [d, nm, l, ell, r, repl]) ps6)))
                    else if ttype (la ps3) = IDENTIFIER then
                      bind_result (shift ps3)
                        (\<lambda>(i, ps4).
                           if ttype (la ps4) = LIT CHR '','' \<or> ttype (la ps4) = LIT CHR '')'' then
                             bind_result (p_identifier_list [i])
                               (\<lambda>ids0. bind_result (rec (T_identifier_list_loop ids0) ps4)
                                  (\<lambda>(ids, ps5).
                                     if ttype (la ps5) = ELLIPSIS then
                                       bind_result (shift ps5)
                                         (\<lambda>(ell, ps6). bind_result (shift_expect (LIT CHR '')'') ps6)
                                            (\<lambda>(r, ps7). bind_result (parse_replacement_list rec ps7)
                                               (\<lambda>(repl, ps8).
                                                  with_engine
                                                    (p_define_directive_5
                                                       [d, nm, l, ids, PStr '','', ell, r, repl]) ps8)))
                                     else
                                       bind_result (shift_expect (LIT CHR '')'') ps5)
                                         (\<lambda>(r, ps6). bind_result (parse_replacement_list rec ps6)
                                            (\<lambda>(repl, ps7).
                                               with_engine
                                                 (p_define_directive_3 [d, nm, l, ids, r, repl]) ps7))))
                           else Inl ParseStopped)
                    else Inl ParseStopped)
             else if ttype (la ps2) = NEWLINE \<or> token_starter (ttype (la ps2)) then
               bind_result (parse_replacement_list rec ps2)
                 (\<lambda>(repl, ps3). with_engine (p_define_directive [d, nm, repl]) ps3)
             else Inl ParseStopped))"

text \<open>
  The other directives. \<open>#include\<close> at depth zero hands its tokens to \<open>include\<close>.
\<close>

definition parse_error_directive :: "parser \<Rightarrow> pstate \<Rightarrow> (pyval \<times> pstate) result" where
  "parse_error_directive rec ps =
     bind_result (shift ps)
       (\<lambda>(e, ps1).
          if ttype (la ps1) = NEWLINE then pure_action (p_error_directive [e] (eng ps1)) ps1
          else bind_result (rec T_token_list ps1)
                 (\<lambda>(toks, ps2). pure_action (p_error_directive [e, toks] (eng ps2)) ps2))"

definition parse_include_directive :: "parser \<Rightarrow> pstate \<Rightarrow> (pyval \<times> pstate) result" where
  "parse_include_directive rec ps =
     bind_result (shift ps)
       (\<lambda>(i, ps1). bind_result (rec T_token_list ps1)
          (\<lambda>(toks, ps2).
             if not_nested (eng ps2) then rec (T_include toks) ps2
             else pure_action (p_include_directive_nested [i, toks]) ps2))"

definition parse_line_directive :: "parser \<Rightarrow> pstate \<Rightarrow> (pyval \<times> pstate) result" where
  "parse_line_directive rec ps =
     bind_result (shift ps)
       (\<lambda>(l, ps1). bind_result (rec T_token_list ps1)
          (\<lambda>(toks, ps2). pure_action (p_line_directive [l, toks] (eng ps2)) ps2))"

definition parse_pragma_directive :: "parser \<Rightarrow> pstate \<Rightarrow> (pyval \<times> pstate) result" where
  "parse_pragma_directive rec ps =
     (if ttype (la ps) = PRAGMA then
        bind_result (shift ps)
          (\<lambda>(p, ps1).
             if ttype (la ps1) = NEWLINE then pure_action (p_pragma_directive [p] (eng ps1)) ps1
             else bind_result (rec T_token_list ps1)
                    (\<lambda>(toks, ps2). pure_action (p_pragma_directive [p, toks] (eng ps2)) ps2))
      else
        bind_result (shift ps)
          (\<lambda>(p, ps1). bind_result (shift_expect (LIT CHR ''('') ps1)
             (\<lambda>(l, ps2). bind_result (shift_expect STRING_LITERAL ps2)
                (\<lambda>(s, ps3). bind_result (shift_expect (LIT CHR '')'') ps3)
                   (\<lambda>(r, ps4). require (\<lambda>ty. ty = NEWLINE) ps4
                      (pure_action (p_pragma_directive [p, l, s, r] (eng ps4)) ps4))))))"

definition parse_undef_directive :: "pstate \<Rightarrow> (pyval \<times> pstate) result" where
  "parse_undef_directive ps =
     bind_result (shift ps)
       (\<lambda>(u, ps1). bind_result (shift_expect IDENTIFIER ps1)
          (\<lambda>(nm, ps2). require (\<lambda>ty. ty = NEWLINE) ps2
             (with_engine (p_undef_directive [u, nm]) ps2)))"

text \<open>
  \<open>control_line\<close>: the directive, its newline, and the action once the token after the
  newline is known.
\<close>

definition parse_control_line :: "parser \<Rightarrow> pstate \<Rightarrow> (pyval \<times> pstate) result" where
  "parse_control_line rec ps =
     (let ty = ttype (la ps) in
      bind_result
        (if ty = DEFINE then parse_define rec ps
         else if ty = ERROR then parse_error_directive rec ps
         else if ty = INCLUDE then parse_include_directive rec ps
         else if ty = LINE then parse_line_directive rec ps
         else if ty = UNDEF then parse_undef_directive ps
         else parse_pragma_directive rec ps)
        (\<lambda>(v, ps1). bind_result (shift_expect NEWLINE ps1)
           (\<lambda>(nl, ps2). require group_follow ps2 (pure_action (p_control_line [v, nl]) ps2))))"

definition parse_text_line :: "parser \<Rightarrow> pstate \<Rightarrow> (pyval \<times> pstate) result" where
  "parse_text_line rec ps =
     (if ttype (la ps) = NEWLINE then
        bind_result (shift ps)
          (\<lambda>(nl, ps1). require group_follow ps1 (pure_action (p_text_line [nl]) ps1))
      else
        bind_result (rec T_token_list ps)
          (\<lambda>(toks, ps1). bind_result (shift_expect NEWLINE ps1)
             (\<lambda>(nl, ps2). require group_follow ps2 (pure_action (p_text_line [toks, nl]) ps2))))"

definition parse_conditionally_supported_directive :: "parser \<Rightarrow> pstate \<Rightarrow> (pyval \<times> pstate) result" where
  "parse_conditionally_supported_directive rec ps =
     bind_result (shift ps)
       (\<lambda>(d, ps1). bind_result (rec T_token_list ps1)
          (\<lambda>(toks, ps2). bind_result (shift_expect NEWLINE ps2)
             (\<lambda>(nl, ps3). require group_follow ps3
                (pure_action (p_conditionally_supported_directive [d, toks, nl]) ps3))))"

subsubsection \<open>Conditional sections\<close>

text \<open>
  The optional \<open>group\<close> of an \<open>#if\<close>, \<open>#elif\<close> or \<open>#else\<close> line: present when the lookahead
  starts a \<open>group_part\<close>. \<open>ok\<close> is the set of tokens that may end it.
\<close>

definition parse_optional_group :: "parser \<Rightarrow> (toktype \<Rightarrow> bool) \<Rightarrow> pstate \<Rightarrow> (pyval option \<times> pstate) result" where
  "parse_optional_group rec ok ps =
     (if group_starter (ttype (la ps)) then
        bind_result (rec T_group ps) (\<lambda>(g, ps1). require ok ps1 (Inr (Some g, ps1)))
      else require ok ps (Inr (None, ps)))"

definition with_group :: "pyval list \<Rightarrow> pyval option \<Rightarrow> pyval list" where
  "with_group p g = (case g of None \<Rightarrow> p | Some v \<Rightarrow> p @ [v])"

definition parse_if_group :: "parser \<Rightarrow> pstate \<Rightarrow> (pyval \<times> pstate) result" where
  "parse_if_group rec ps =
     (if ttype (la ps) = IF then
        bind_result (shift ps)
          (\<lambda>(i, ps1). bind_result (rec T_constant_expression ps1)
             (\<lambda>(c, ps2). bind_result (shift_expect NEWLINE ps2)
                (\<lambda>(nl, ps3). bind_result (parse_optional_group rec section_follow ps3)
                   (\<lambda>(g, ps4). pure_action (p_if_group (with_group [i, c, nl] g)) ps4))))
      else
        bind_result (shift ps)
          (\<lambda>(i, ps1). bind_result (shift_expect IDENTIFIER ps1)
             (\<lambda>(nm, ps2). bind_result (shift_expect NEWLINE ps2)
                (\<lambda>(nl, ps3). bind_result (parse_optional_group rec section_follow ps3)
                   (\<lambda>(g, ps4).
                      if ttype (la ps) = IFDEF
                      then pure_action (p_if_group2 (with_group [i, nm, nl] g) (eng ps4)) ps4
                      else pure_action (p_if_group3 (with_group [i, nm, nl] g) (eng ps4)) ps4)))))"

text \<open>
  \<open>elif_groups\<close>: the task carries the list built so far (\<open>None\<close> before the first
  group) and gives \<open>PNone\<close> when there is no \<open>#elif\<close> at all.
\<close>

definition do_elif_groups :: "parser \<Rightarrow> pyval option \<Rightarrow> pstate \<Rightarrow> (pyval \<times> pstate) result" where
  "do_elif_groups rec acc ps =
     (if ttype (la ps) = ELIF then
        bind_result (shift ps)
          (\<lambda>(e, ps1). bind_result (rec T_constant_expression ps1)
             (\<lambda>(c, ps2). bind_result (shift_expect NEWLINE ps2)
                (\<lambda>(nl, ps3). bind_result (parse_optional_group rec section_follow ps3)
                   (\<lambda>(g, ps4). bind_result (p_elif_group (with_group [e, c, nl] g))
                      (\<lambda>eg. bind_result
                         (p_elif_groups (case acc of None \<Rightarrow> [eg] | Some l \<Rightarrow> [l, eg]))
                         (\<lambda>acc'. rec (T_elif_groups (Some acc')) ps4))))))
      else Inr (case acc of None \<Rightarrow> PNone | Some l \<Rightarrow> l, ps))"

definition parse_else_group :: "parser \<Rightarrow> pstate \<Rightarrow> (pyval option \<times> pstate) result" where
  "parse_else_group rec ps =
     (if ttype (la ps) = ELSE then
        bind_result (shift ps)
          (\<lambda>(e, ps1). bind_result (shift_expect NEWLINE ps1)
             (\<lambda>(nl, ps2). bind_result (parse_optional_group rec (\<lambda>ty. ty = ENDIF) ps2)
                (\<lambda>(g, ps3). bind_result (p_else_group (with_group [e, nl] g))
                   (\<lambda>v. Inr (Some v, ps3)))))
      else Inr (None, ps))"

definition parse_endif_line :: "pstate \<Rightarrow> (pyval \<times> pstate) result" where
  "parse_endif_line ps =
     bind_result (shift_expect ENDIF ps)
       (\<lambda>(e, ps1). bind_result (shift_expect NEWLINE ps1)
          (\<lambda>(nl, ps2). require group_follow ps2 (pure_action (p_endif_line [e, nl]) ps2)))"

text \<open>
  \<open>if_section\<close>: the four productions differ in the presence of \<open>elif\<close> groups and of an
  \<open>else\<close> group. Each action chooses \<open>if_block\<close> and, when \<open>nested_if\<close> is zero, parses it
  again with a clone of the scanner.
\<close>

definition parse_if_section :: "parser \<Rightarrow> pstate \<Rightarrow> (pyval \<times> pstate) result" where
  "parse_if_section rec ps =
     bind_result (parse_if_group rec ps)
       (\<lambda>(ig, ps1). bind_result (rec (T_elif_groups None) ps1)
          (\<lambda>(elifs, ps2). bind_result (parse_else_group rec ps2)
             (\<lambda>(els, ps3). bind_result (parse_endif_line ps3)
                (\<lambda>(e, ps4). bind_result
                   (case (elifs, els) of
                      (PNone, None) \<Rightarrow> if_block1 [ig, e]
                    | (PNone, Some eg) \<Rightarrow> if_block3 [ig, eg, e]
                    | (_, None) \<Rightarrow> if_block2 [ig, elifs, e]
                    | (_, Some eg) \<Rightarrow> if_block4 [ig, elifs, eg, e])
                   (\<lambda>if_block.
                      if not_nested (eng ps4) then rec (T_parse if_block) ps4
                      else Inr (if_block, ps4))))))"

subsubsection \<open>Groups\<close>

definition do_group_part :: "parser \<Rightarrow> pstate \<Rightarrow> (pyval \<times> pstate) result" where
  "do_group_part rec ps =
     (let ty = ttype (la ps) in
      bind_result
        (if ty \<in> set [DEFINE, ERROR, INCLUDE, LINE, PRAGMA, UPRAGMA, UNDEF] then
           parse_control_line rec ps
         else if ty \<in> set [IF, IFDEF, IFNDEF] then parse_if_section rec ps
         else if ty = DIRECTIVE then parse_conditionally_supported_directive rec ps
         else if ty = NEWLINE \<or> token_starter ty then parse_text_line rec ps
         else Inl ParseStopped)
        (\<lambda>(v, ps1). pure_action (p_group_part [v]) ps1))"

definition do_group :: "parser \<Rightarrow> pstate \<Rightarrow> (pyval \<times> pstate) result" where
  "do_group rec ps =
     bind_result (rec T_group_part ps)
       (\<lambda>(v, ps1). bind_result (p_group [v]) (\<lambda>acc. rec (T_group_loop acc) ps1))"

definition do_group_loop :: "parser \<Rightarrow> pyval \<Rightarrow> pstate \<Rightarrow> (pyval \<times> pstate) result" where
  "do_group_loop rec acc ps =
     (if group_starter (ttype (la ps)) then
        bind_result (rec T_group_part ps)
          (\<lambda>(v, ps1). bind_result (p_group [acc, v]) (\<lambda>acc'. rec (T_group_loop acc') ps1))
      else Inr (acc, ps))"

definition do_preprocessing_file :: "parser \<Rightarrow> pstate \<Rightarrow> (pyval \<times> pstate) result" where
  "do_preprocessing_file rec ps =
     (if ttype (la ps) = EOF then pure_action (p_preprocessing_file []) ps
      else bind_result (rec T_group ps)
             (\<lambda>(g, ps1). require (\<lambda>ty. ty = EOF) ps1 (pure_action (p_preprocessing_file [g]) ps1)))"

subsubsection \<open>\<open>parse\<close>, \<open>process\<close> and \<open>include\<close>\<close>

text \<open>
  \<open>self._parser.parse(data, lexer = clone)\<close>: the clone starts at the head of \<open>data\<close>
  with the line number of the generator's lexer object, which never scans itself and
  stays at 1. The caller's scanner and lookahead are untouched; the engine is shared.
\<close>

definition do_parse :: "parser \<Rightarrow> pyval \<Rightarrow> pstate \<Rightarrow> (pyval \<times> pstate) result" where
  "do_parse rec data ps =
     (case data of
        PStr text \<Rightarrow>
          bind_result (advance (ps\<lparr>buf := \<lparr>prev_char = None, rest = text, lb_lineno = 1\<rparr>\<rparr>))
            (\<lambda>ps1. bind_result (rec T_preprocessing_file ps1)
               (\<lambda>(v, ps2). Inr (v, ps\<lparr>eng := eng ps2\<rparr>)))
      | _ \<Rightarrow> Inl ValueError)"

text \<open>
  \<open>process(file_path)\<close>: the path becomes the current file, the file is read, the
  phase filter runs and the text is parsed.
\<close>

definition do_process :: "world \<Rightarrow> parser \<Rightarrow> string \<Rightarrow> pstate \<Rightarrow> (pyval \<times> pstate) result" where
  "do_process w rec file_path ps =
     (case files w file_path of
        None \<Rightarrow> Inl FileNotFoundError
      | Some file_content \<Rightarrow>
          rec (T_parse (PStr (phase_filter (keep_comment (eng ps)) file_content)))
              (ps\<lparr>eng := (eng ps)\<lparr>current_file := Some file_path,
                                   reads := reads (eng ps) @ [file_path]\<rparr>\<rparr>))"

text \<open>
  \<open>include(header_name)\<close>. \<open>find_in_stdlib\<close> is the loop over \<open>_stdlib_path\<close> with its
  \<open>break\<close>.
\<close>

fun find_in_stdlib :: "world \<Rightarrow> string list \<Rightarrow> string \<Rightarrow> string option" where
  "find_in_stdlib w [] header_path = None"
| "find_in_stdlib w (std_dir # dirs) header_path =
     (if files w (dir_join w std_dir header_path) \<noteq> None
      then Some (dir_join w std_dir header_path)
      else find_in_stdlib w dirs header_path)"

definition resolve_header :: "world \<Rightarrow> engine \<Rightarrow> string \<Rightarrow> string result" where
  "resolve_header w self header_name =
     (let header_path = py_slice_1_m1 header_name in
      if header_name = [] then Inl IndexError
      else if hd header_name = DQ \<and> last header_name = DQ then
        (case current_file self of
           None \<Rightarrow> Inl AttributeError
         | Some cf \<Rightarrow>
             if files w (parent_join w cf header_path) \<noteq> None
             then Inr (parent_join w cf header_path)
             else (case find_in_stdlib w (stdlib_path self) header_path of
                     None \<Rightarrow> Inl FileNotFoundError
                   | Some p \<Rightarrow> Inr p))
      else (case find_in_stdlib w (stdlib_path self) header_path of
              None \<Rightarrow> Inl FileNotFoundError
            | Some p \<Rightarrow> Inr p))"

definition do_include :: "world \<Rightarrow> parser \<Rightarrow> pyval \<Rightarrow> pstate \<Rightarrow> (pyval \<times> pstate) result" where
  "do_include w rec header ps =
     (case header of
        PStr header_name \<Rightarrow>
          (case headers_table (eng ps) (py_slice_1_m1 header_name) of
             Some cached \<Rightarrow> Inr (PStr cached, ps)
           | None \<Rightarrow>
               bind_result (resolve_header w (eng ps) header_name)
                 (\<lambda>include_path. bind_result (rec (T_process include_path) ps)
                    (\<lambda>(content, ps1). bind_result (py_add content (PStr [NL]))
                       (\<lambda>include_content.
                          case include_content of
                            PStr text \<Rightarrow>
                              Inr (include_content,
                                   ps1\<lparr>eng := (eng ps1)\<lparr>headers_table :=
                                          (headers_table (eng ps1))(py_slice_1_m1 header_name \<mapsto> text)\<rparr>\<rparr>)
                          | _ \<Rightarrow> Inl TypeError))))
      | PTuple vs \<Rightarrow> Inl Unmodelled
      | PList vs \<Rightarrow> Inl Unmodelled
      | _ \<Rightarrow> Inl TypeError)"

subsubsection \<open>Tying the knot\<close>

definition step :: "world \<Rightarrow> parser \<Rightarrow> parser" where
  "step w rec t ps =
     (case t of
        T_parse data \<Rightarrow> do_parse rec data ps
      | T_process file_path \<Rightarrow> do_process w rec file_path ps
      | T_include header \<Rightarrow> do_include w rec header ps
      | T_preprocessing_file \<Rightarrow> do_preprocessing_file rec ps
      | T_group \<Rightarrow> do_group rec ps
      | T_group_loop acc \<Rightarrow> do_group_loop rec acc ps
      | T_group_part \<Rightarrow> do_group_part rec ps
      | T_token_list \<Rightarrow> do_token_list w rec ps
      | T_token_list_loop acc \<Rightarrow> do_token_list_loop w rec acc ps
      | T_identifier_list_loop acc \<Rightarrow> do_identifier_list_loop rec acc ps
      | T_constant_expression \<Rightarrow> do_constant_expression rec ps
      | T_conditional_expression \<Rightarrow> do_conditional_expression rec ps
      | T_level k \<Rightarrow> do_level rec k ps
      | T_level_loop k acc \<Rightarrow> do_level_loop rec k acc ps
      | T_unary_expression \<Rightarrow> do_unary_expression w rec ps
      | T_elif_groups acc \<Rightarrow> do_elif_groups rec acc ps)"

primrec run :: "world \<Rightarrow> nat \<Rightarrow> parser" where
  "run w 0 = (\<lambda>t ps. Inl RecursionError)"
| "run w (Suc n) = step w (run w n)"

text \<open>
  The public methods, on an engine. A parser state for a call from outside has no
  scanner of its own.
\<close>

definition outer_state :: "engine \<Rightarrow> pstate" where
  "outer_state self =
     \<lparr>la = \<lparr>ttype = EOF, tvalue = PNone\<rparr>,
      buf = \<lparr>prev_char = None, rest = [], lb_lineno = 1\<rparr>,
      eng = self\<rparr>"

definition call :: "world \<Rightarrow> nat \<Rightarrow> task \<Rightarrow> engine \<Rightarrow> (pyval \<times> engine) result" where
  "call w fuel t self =
     bind_result (run w fuel t (outer_state self)) (\<lambda>(v, ps). Inr (v, eng ps))"

definition process :: "world \<Rightarrow> nat \<Rightarrow> string \<Rightarrow> engine \<Rightarrow> (pyval \<times> engine) result" where
  "process w fuel file_path self = call w fuel (T_process file_path) self"

definition include_header :: "world \<Rightarrow> nat \<Rightarrow> string \<Rightarrow> engine \<Rightarrow> (pyval \<times> engine) result" where
  "include_header w fuel header_name self = call w fuel (T_include (PStr header_name)) self"

definition parse :: "world \<Rightarrow> nat \<Rightarrow> string \<Rightarrow> engine \<Rightarrow> (pyval \<times> engine) result" where
  "parse w fuel data self = call w fuel (T_parse (PStr data)) self"

section \<open>Worlds and texts for examples\<close>

text \<open>
  \<open>flat_world fs\<close> has the files \<open>fs\<close> in one directory: a header name joined to the
  parent of a file is the header name, a header name joined to a directory is the two
  texts put together. It has no callables. \<open>text_of ls\<close> is the text whose lines are
  \<open>ls\<close>, each ended by a newline.
\<close>

definition flat_world :: "(string \<times> string) list \<Rightarrow> world" where
  "flat_world fs =
     \<lparr>files = map_of fs,
      parent_join = (\<lambda>file header. header),
      dir_join = (\<lambda>dir header. dir @ header),
      host = (\<lambda>f args. Inl Unmodelled)\<rparr>"

definition text_of :: "string list \<Rightarrow> string" where
  "text_of ls = concat (map (\<lambda>l. l @ [NL]) ls)"

text \<open>The value a call returns, and the exception it raises.\<close>

definition returned :: "'e + 'a \<times> 'b \<Rightarrow> 'a option" where
  "returned r = (case r of Inl e \<Rightarrow> None | Inr (v, s) \<Rightarrow> Some v)"

definition raised :: "'a result \<Rightarrow> pyerror option" where
  "raised r = (case r of Inl e \<Rightarrow> Some e | Inr v \<Rightarrow> None)"

section \<open>Counting conditional directives\<close>

text \<open>
  The effect of a token on the depth of conditional sections: \<open>#if\<close>, \<open>#ifdef\<close> and
  \<open>#ifndef\<close> open one, \<open>#endif\<close> closes one. \<open>depth_change\<close> adds the effects of a list
  of tokens.
\<close>

fun depth_effect :: "toktype \<Rightarrow> int" where
  "depth_effect IF = 1"
| "depth_effect IFDEF = 1"
| "depth_effect IFNDEF = 1"
| "depth_effect ENDIF = - 1"
| "depth_effect ty = 0"



definition spelled_as_reserved :: "token \<Rightarrow> bool" where
  "spelled_as_reserved t =
     (case tvalue t of PStr lexeme \<Rightarrow> lookup_reserved lexeme = Some (ttype t) | _ \<Rightarrow> False)"

text \<open>
  The engine a call leaves behind, and how often a finished call has read a file
  (from the log \<open>reads\<close>).
\<close>

definition final_engine :: "('a \<times> engine) result \<Rightarrow> engine option" where
  "final_engine r = (case r of Inl e \<Rightarrow> None | Inr (v, s) \<Rightarrow> Some s)"

definition times_read :: "string \<Rightarrow> ('a \<times> engine) result \<Rightarrow> nat option" where
  "times_read file_path r =
     (case r of Inl e \<Rightarrow> None | Inr (v, s) \<Rightarrow> Some (count_list (reads s) file_path))"

text \<open>
  A header that includes itself inside its include guard, and a file that includes
  it.
\<close>

definition guarded_header_world :: world where
  "guarded_header_world =
     flat_world
       [(''main.c'', text_of [''#include '' @ [DQ] @ ''h.h'' @ [DQ]]),
        (''h.h'', text_of [''#ifndef H'', ''#define H 1'', ''#include '' @ [DQ] @ ''h.h'' @ [DQ],
                           ''#endif''])]"

chapter \<open>The claims\<close>

section \<open>Digraphs and trigraphs\<close>

text \<open>
  C4. The table spells the two closing digraphs \<open>>:\<close> and \<open>>%\<close>: the digraphs \<open>:>\<close> and
  \<open>%>\<close> of C99 pass through unchanged, and the texts \<open>>:\<close> and \<open>>%\<close> are replaced
  instead.
\<close>

theorem replace_di_trigraph_closing_digraphs:
  "replace_di_trigraph '':>'' = '':>'' \<and> replace_di_trigraph ''%>'' = ''%>'' \<and>
   replace_di_trigraph ''>:'' = '']'' \<and> replace_di_trigraph ''>%'' = ''}''"
  by (simp add: replace_di_trigraph_def di_tri_graph_replace_table_def)

section \<open>Object-like macros in text lines\<close>

text \<open>
  C1. The file \<open>#define FOO 1\<close>, \<open>FOO\<close>: the scanner turns \<open>1\<close> into the integer 1,
  \<open>define_macro\<close> stores it as the replacement, \<open>p_token\<close> puts it in place of \<open>FOO\<close>
  and \<open>p_text_line\<close> joins the line with \<open>' '.join\<close>, which takes strings only:
  \<open>process\<close> raises \<open>TypeError\<close> and returns no output.
\<close>

theorem process_define_constant_then_use:
  "raised (process (flat_world [(''main.c'', text_of [''#define FOO 1'', ''FOO''])]) 100
             ''main.c'' (new_engine [] True))
   = Some TypeError"
  by code_simp

section \<open>Identifiers in \<open>#if\<close>\<close>

text \<open>
  C2. An identifier that is not a macro is passed on by \<open>p_primary_expression\<close> as its
  own name, a non-empty string, which counts as true: \<open>#if FOO\<close> with \<open>FOO\<close> undefined
  keeps the lines of its branch, where \<open>#if 0\<close> drops them.
\<close>

theorem process_if_undefined_identifier:
  "returned (process (flat_world [(''main.c'', text_of [''#if FOO'', ''A'', ''#endif''])]) 100
               ''main.c'' (new_engine [] True))
   = Some (PStr (text_of [''A '']))
   \<and> returned (process (flat_world [(''main.c'', text_of [''#if 0'', ''A'', ''#endif''])]) 100
               ''main.c'' (new_engine [] True))
   = Some (PStr (text_of ['''']))"
  by code_simp

section \<open>The tokens of the scanner\<close>



lemma t_DIRECTIVE_returns:
  assumes "t_DIRECTIVE lexeme self = Inr (t, self')"
  shows "nested_if self' = nested_if self + depth_effect (ttype t)"
    and "0 \<le> nested_if self \<Longrightarrow> 0 \<le> nested_if self'"
    and "depth_effect (ttype t) \<noteq> 0 \<Longrightarrow> spelled_as_reserved t"
proof -
  show "nested_if self' = nested_if self + depth_effect (ttype t)"
  proof (cases "lookup_reserved lexeme")
    case None
    with assms show ?thesis by (auto simp: t_DIRECTIVE_def)
  next
    case (Some ty)
    with assms show ?thesis
      by (cases ty) (auto simp: t_DIRECTIVE_def Let_def split: if_splits)
  qed
  show "0 \<le> nested_if self \<Longrightarrow> 0 \<le> nested_if self'"
    using assms by (auto simp: t_DIRECTIVE_def Let_def split: option.splits if_splits)
  show "depth_effect (ttype t) \<noteq> 0 \<Longrightarrow> spelled_as_reserved t"
    using assms
    by (auto simp: t_DIRECTIVE_def Let_def spelled_as_reserved_def split: option.splits if_splits)
qed


lemma t_DIRECTIVE_not_DEFINED:
  assumes "t_DIRECTIVE (CHR ''#'' # s) self = Inr (t, self')"
  shows "ttype t \<noteq> DEFINED"
proof (cases "lookup_reserved (CHR ''#'' # s)")
  case None
  with assms show ?thesis by (auto simp: t_DIRECTIVE_def)
next
  case (Some ty)
  then have "ty \<noteq> DEFINED"
    by (auto simp: lookup_reserved_def reserved_def split: if_splits)
  with Some assms show ?thesis
    by (auto simp: t_DIRECTIVE_def Let_def split: if_splits)
qed

lemma converted_returns:
  "converted r self lno = Inr (t, self', lno') \<Longrightarrow> ttype t = CONSTANT \<and> self' = self"
  by (auto simp: converted_def split: sum.splits)


lemma m_operator_type:
  "m_operator rules s = Some (ty, n) \<Longrightarrow> ty \<in> snd ` set rules"
  by (induction rules) (auto split: if_splits)

lemma operator_rules_types:
  "ty \<in> snd ` set operator_rules \<Longrightarrow> depth_effect ty = 0 \<and> ty \<noteq> DEFINED"
  by (auto simp: operator_rules_def)

lemma first_match_rule:
  "first_match ms = Some (r, n) \<Longrightarrow> r \<in> fst ` set ms"
  by (induction ms rule: first_match.induct) auto

lemma match_rule_operator:
  assumes "match_rule prev s = Some (R_OPERATOR ty, n)"
  shows "depth_effect ty = 0" and "ty \<noteq> DEFINED"
proof -
  from assms have "m_operator operator_rules s = Some (ty, n)"
    by (auto simp: match_rule_def split: option.splits dest!: first_match_rule)
  then have "ty \<in> snd ` set operator_rules" by (rule m_operator_type)
  then show "depth_effect ty = 0" and "ty \<noteq> DEFINED"
    using operator_rules_types by blast+
qed

lemma first_match_entry:
  "first_match ms = Some (r, n) \<Longrightarrow> (r, Some n) \<in> set ms"
  by (induction ms rule: first_match.induct) auto

lemma match_rule_directive:
  assumes "match_rule prev s = Some (R_DIRECTIVE, n)"
  shows "\<exists>r. s = CHR ''#'' # r"
proof -
  from assms have "first_match
      [(R_NEWLINE, m_newline s), (R_HEADER_NAME, m_header_name s),
       (R_DIRECTIVE, m_directive s), (R_IDENTIFIER, m_identifier s),
       (R_STRING_LITERAL, m_string_literal s), (R_FLOAT, m_float s),
       (R_HEX, m_hex s), (R_INTEGER, m_integer s), (R_LITERAL, m_literal s),
       (R_LPAREN, m_lparen prev s)] = Some (R_DIRECTIVE, n)"
    by (auto simp: match_rule_def split: option.splits)
  from first_match_entry [OF this] have "m_directive s = Some n" by simp
  then have "m_directive s \<noteq> None" by simp
  then show ?thesis
    by (auto simp: m_directive_def split: list.splits if_splits)
qed


lemma apply_rule_returns:
  assumes "apply_rule r lexeme self lno = Inr (t, self', lno')"
    and "\<And>ty. r = R_OPERATOR ty \<Longrightarrow> depth_effect ty = 0"
  shows "nested_if self' = nested_if self + depth_effect (ttype t)"
    and "0 \<le> nested_if self \<Longrightarrow> 0 \<le> nested_if self'"
    and "depth_effect (ttype t) \<noteq> 0 \<Longrightarrow> spelled_as_reserved t"
proof -
  have "nested_if self' = nested_if self + depth_effect (ttype t)
        \<and> (0 \<le> nested_if self \<longrightarrow> 0 \<le> nested_if self')
        \<and> (depth_effect (ttype t) \<noteq> 0 \<longrightarrow> spelled_as_reserved t)"
  proof (cases r)
    case R_DIRECTIVE
    with assms(1) have "t_DIRECTIVE lexeme self = Inr (t, self')"
      by (auto simp: apply_rule_def split: sum.splits)
    from t_DIRECTIVE_returns [OF this] show ?thesis by simp
  next
    case (R_OPERATOR ty)
    with assms show ?thesis by (auto simp: apply_rule_def)
  qed (use assms(1) in \<open>auto simp: apply_rule_def dest: converted_returns\<close>)
  then show "nested_if self' = nested_if self + depth_effect (ttype t)"
    and "0 \<le> nested_if self \<Longrightarrow> 0 \<le> nested_if self'"
    and "depth_effect (ttype t) \<noteq> 0 \<Longrightarrow> spelled_as_reserved t"
    by simp_all
qed


lemma apply_rule_not_DEFINED:
  assumes "apply_rule r (CHR ''#'' # s) self lno = Inr (t, self', lno')"
    and "\<And>ty. r = R_OPERATOR ty \<Longrightarrow> ty \<noteq> DEFINED"
  shows "ttype t \<noteq> DEFINED"
proof (cases r)
  case R_DIRECTIVE
  with assms(1) have "t_DIRECTIVE (CHR ''#'' # s) self = Inr (t, self')"
    by (auto simp: apply_rule_def split: sum.splits)
  then show ?thesis by (rule t_DIRECTIVE_not_DEFINED)
next
  case (R_OPERATOR ty)
  with assms show ?thesis by (auto simp: apply_rule_def)
qed (use assms(1) in \<open>auto simp: apply_rule_def dest: converted_returns\<close>)

lemma apply_rule_other_not_DEFINED:
  assumes "apply_rule r lexeme self lno = Inr (t, self', lno')"
    and "r \<noteq> R_DIRECTIVE" and "\<And>ty. r = R_OPERATOR ty \<Longrightarrow> ty \<noteq> DEFINED"
  shows "ttype t \<noteq> DEFINED"
  using assms by (cases r) (auto simp: apply_rule_def dest: converted_returns)




text \<open>One call of \<open>token()\<close>.\<close>

lemma next_token_returns:
  assumes "next_token self lno prev s = Inr (tok, self', b)"
  shows "nested_if self' = nested_if self + (case tok of None \<Rightarrow> 0 | Some t \<Rightarrow> depth_effect (ttype t))"
    and "0 \<le> nested_if self \<Longrightarrow> 0 \<le> nested_if self'"
    and "\<And>t. tok = Some t \<Longrightarrow> depth_effect (ttype t) \<noteq> 0 \<Longrightarrow> spelled_as_reserved t"
    and "\<And>t. tok = Some t \<Longrightarrow> ttype t \<noteq> DEFINED"
proof -
  have "nested_if self' = nested_if self + (case tok of None \<Rightarrow> 0 | Some t \<Rightarrow> depth_effect (ttype t))
      \<and> (0 \<le> nested_if self \<longrightarrow> 0 \<le> nested_if self')
      \<and> (\<forall>t. tok = Some t \<longrightarrow>
            (depth_effect (ttype t) \<noteq> 0 \<longrightarrow> spelled_as_reserved t) \<and> ttype t \<noteq> DEFINED)"
    using assms
  proof (induction s arbitrary: prev)
    case Nil
    then show ?case by auto
  next
    case (Cons c cs)
    show ?case
    proof (cases "c \<in> set t_ignore")
      case True
      with Cons.prems have "next_token self lno (Some c) cs = Inr (tok, self', b)" by simp
      then show ?thesis by (rule Cons.IH)
    next
      case False
      show ?thesis
      proof (cases "match_rule prev (c # cs)")
        case None
        show ?thesis
        proof (cases "c \<in> set literals")
          case True
          with Cons.prems False None show ?thesis by auto
        next
          case nolit: False
          with Cons.prems False None
          have "next_token self lno (Some c) cs = Inr (tok, self', b)" by simp
          then show ?thesis by (rule Cons.IH)
        qed
      next
        case (Some m)
        obtain r n where m: "m = (r, n)" by (cases m)
        from Cons.prems False Some m obtain t lno'
          where ap: "apply_rule r (c # take (n - 1) cs) self lno = Inr (t, self', lno')"
            and tok: "tok = Some t"
          by (auto simp: Let_def split: sum.splits)
        have op: "\<And>ty. r = R_OPERATOR ty \<Longrightarrow> depth_effect ty = 0"
          and op': "\<And>ty. r = R_OPERATOR ty \<Longrightarrow> ty \<noteq> DEFINED"
          using Some m match_rule_operator by blast+
        have "ttype t \<noteq> DEFINED"
        proof (cases "r = R_DIRECTIVE")
          case True
          with Some m have "c = CHR ''#''" using match_rule_directive by fastforce
          with ap op' show ?thesis using apply_rule_not_DEFINED by blast
        next
          case False
          with ap op' show ?thesis using apply_rule_other_not_DEFINED by blast
        qed
        with apply_rule_returns [OF ap op] tok show ?thesis by auto
      qed
    qed
  qed
  then show "nested_if self' = nested_if self + (case tok of None \<Rightarrow> 0 | Some t \<Rightarrow> depth_effect (ttype t))"
    and "0 \<le> nested_if self \<Longrightarrow> 0 \<le> nested_if self'"
    and "\<And>t. tok = Some t \<Longrightarrow> depth_effect (ttype t) \<noteq> 0 \<Longrightarrow> spelled_as_reserved t"
    and "\<And>t. tok = Some t \<Longrightarrow> ttype t \<noteq> DEFINED"
    by simp_all
qed






lemma scan_not_DEFINED: "DEFINED \<notin> ttype ` fst ` set (fst (scan self b))"
proof (induction self b rule: scan.induct)
  case (1 self b)
  show ?case
  proof (cases "token_of self b")
    case (Inl x)
    then show ?thesis by simp
  next
    case (Inr x)
    obtain tok self1 b1 where x: "x = (tok, self1, b1)" by (cases x)
    from Inr x have nt: "next_token self (lb_lineno b) (prev_char b) (rest b) = Inr (tok, self1, b1)"
      by (simp add: token_of_def)
    show ?thesis
    proof (cases tok)
      case None
      with Inr x show ?thesis by simp
    next
      case (Some t)
      from next_token_returns(4) [OF nt Some] have "ttype t \<noteq> DEFINED" .
      moreover note ih = "1.IH" [OF Inr x [symmetric] Some refl]
      obtain ts r where sc: "scan self1 b1 = (ts, r)" by (cases "scan self1 b1")
      have unfold: "scan self b = ((t, self1) # ts, r)"
        using Inr x Some sc by simp
      from ih sc \<open>ttype t \<noteq> DEFINED\<close> show ?thesis
        unfolding unfold by auto
    qed
  qed
qed

section \<open>\<open>defined\<close>\<close>

text \<open>
  C5. No token of the scanner has the type \<open>DEFINED\<close>, whatever the text and the state
  of the lexer object. \<open>reserved\<close> maps the word \<open>defined\<close> to that type, but only
  \<open>t_DIRECTIVE\<close> looks into \<open>reserved\<close>, and its lexemes start with \<open>#\<close>;
  \<open>t_IDENTIFIER\<close> returns the word as an \<open>IDENTIFIER\<close>. A parenthesis right after the
  word is an \<open>LPAREN\<close>, where the production wants the literal. So the production
  \<open>DEFINED '(' IDENTIFIER ')'\<close> of \<open>p_unary_expression\<close> is never reduced, although its
  action computes what the claim says: whether the identifier is a key of the macro
  table.
\<close>

theorem defined_is_never_a_token:
  "DEFINED \<notin> ttype ` fst ` set (fst (scan self b)) \<and>
   (case token_of self b of Inr (Some t, self', b') \<Rightarrow> ttype t \<noteq> DEFINED | _ \<Rightarrow> True) \<and>
   map_option (map ttype) (returned (tokenize \<lparr>lineno = 1, nested_if = 0\<rparr> 1 ''defined(X)''))
     = Some [IDENTIFIER, LPAREN, IDENTIFIER, LIT CHR '')''] \<and>
   map_option (map ttype) (returned (tokenize \<lparr>lineno = 1, nested_if = 0\<rparr> 1 ''defined (X)''))
     = Some [IDENTIFIER, LIT CHR ''('', IDENTIFIER, LIT CHR '')''] \<and>
   lookup_reserved ''defined'' = Some DEFINED \<and>
   p_unary_expression [d, l, PStr x, r] engine = Inr (PBool (in_macro x engine))"
proof -
  have one: "case token_of self b of Inr (Some t, self', b') \<Rightarrow> ttype t \<noteq> DEFINED | _ \<Rightarrow> True"
  proof (cases "token_of self b")
    case (Inl x)
    then show ?thesis by simp
  next
    case (Inr x)
    obtain tok self1 b1 where x: "x = (tok, self1, b1)" by (cases x)
    from Inr x have "next_token self (lb_lineno b) (prev_char b) (rest b) = Inr (tok, self1, b1)"
      by (simp add: token_of_def)
    from next_token_returns(4) [OF this] Inr x show ?thesis
      by (cases tok) auto
  qed
  have t1: "map_option (map ttype) (returned (tokenize \<lparr>lineno = 1, nested_if = 0\<rparr> 1 ''defined(X)''))
     = Some [IDENTIFIER, LPAREN, IDENTIFIER, LIT CHR '')'']"
    by code_simp
  have t2: "map_option (map ttype) (returned (tokenize \<lparr>lineno = 1, nested_if = 0\<rparr> 1 ''defined (X)''))
     = Some [IDENTIFIER, LIT CHR ''('', IDENTIFIER, LIT CHR '')'']"
    by code_simp
  have r: "lookup_reserved ''defined'' = Some DEFINED"
    by (simp add: lookup_reserved_def reserved_def)
  have a: "p_unary_expression [d, l, PStr x, r] engine = Inr (PBool (in_macro x engine))"
    by simp
  from scan_not_DEFINED [of self b] one t1 t2 r a show ?thesis by (intro conjI)
qed

section \<open>The conditional operator\<close>

text \<open>
  C6. For \<open>a ? b : c\<close> the action computes \<open>p[1] if p[2] else p[3]\<close>, where \<open>p[2]\<close> is the
  token \<open>?\<close>: the result is always the value of \<open>a\<close>. So \<open>#if 1 ? 0 : 1\<close> keeps its
  branch although the value of \<open>b\<close> is 0.
\<close>

theorem p_conditional_expression_is_condition:
  "p_conditional_expression [a, PStr ''?'', b, PStr '':'', c] = Inr a
   \<and> returned (process (flat_world [(''main.c'', text_of [''#if 1 ? 0 : 1'', ''A'', ''#endif''])])
                100 ''main.c'' (new_engine [] True))
     = Some (PStr (text_of [''A '']))"
proof
  show "p_conditional_expression [a, PStr ''?'', b, PStr '':'', c] = Inr a"
    by simp
  show "returned (process (flat_world [(''main.c'', text_of [''#if 1 ? 0 : 1'', ''A'', ''#endif''])])
                100 ''main.c'' (new_engine [] True))
     = Some (PStr (text_of [''A '']))"
    by code_simp
qed

section \<open>Built-in macros\<close>

text \<open>
  C9. \<open>define_macro\<close> has no callback parameter: \<open>time.strftime\<close> arrives as the
  replacement of \<open>__DATE__\<close> and \<open>__TIME__\<close>, and the callback of both is \<open>None\<close>. With a
  stored argument list and no callback, expanding either of them with no arguments
  raises \<open>Exception("Function like macro needs argument list.")\<close>, in every world.
\<close>

theorem builtin_macros_have_no_callback:
  "map_option m_callback (macro (new_engine stdlib keep) ''__DATE__'') = Some None
   \<and> map_option m_callback (macro (new_engine stdlib keep) ''__TIME__'') = Some None
   \<and> expand_macro w ''__DATE__'' None (new_engine stdlib keep)
     = Inl (PyException [PStr ''Function like macro needs argument list.''])
   \<and> expand_macro w ''__TIME__'' None (new_engine stdlib keep)
     = Inl (PyException [PStr ''Function like macro needs argument list.''])"
  by (simp add: expand_macro_def new_engine_def define_macro_def Macro_init_def expand_def
        bind_result_def)

section \<open>The counter \<open>nested_if\<close>\<close>




section \<open>The header cache\<close>

text \<open>
  C8, as stated, fails for a header that includes itself: \<open>include\<close> writes the cache
  entry only after \<open>process\<close> has returned, so the \<open>#include "h.h"\<close> inside \<open>h.h\<close> (reached
  when the guarded block is parsed again) misses the cache and reads the file a second
  time. The run ends normally.
\<close>

theorem include_guarded_header_read_twice:
  "times_read ''h.h'' (process guarded_header_world 200 ''main.c'' (new_engine [] True)) = Some 2"
  by code_simp

text \<open>
  C8, amended. When an inclusion has returned, its text is in the cache under the
  header path; and from any engine whose cache holds that entry, \<open>include\<close> with the
  same header name returns the same text and leaves the engine as it is: nothing is
  processed and no file is read (the log \<open>reads\<close> is part of the engine).
\<close>

theorem include_twice_same_text:
  "include_header w fuel header_name self = Inr (v, self') \<Longrightarrow>
     (\<exists>text. v = PStr text \<and> headers_table self' (py_slice_1_m1 header_name) = Some text) \<and>
     (\<forall>later fuel'.
        0 < fuel' \<and>
        headers_table later (py_slice_1_m1 header_name)
          = headers_table self' (py_slice_1_m1 header_name) \<longrightarrow>
        include_header w fuel' header_name later = Inr (v, later))"
proof -
  assume first: "include_header w fuel header_name self = Inr (v, self')"
  let ?key = "py_slice_1_m1 header_name"
  obtain n where fuel: "fuel = Suc n"
    using first by (cases fuel) (auto simp: include_header_def call_def bind_result_def)
  have cached: "\<exists>text. v = PStr text \<and> headers_table self' ?key = Some text"
  proof (cases "headers_table self ?key")
    case (Some cached)
    with first fuel show ?thesis
      by (auto simp: include_header_def call_def bind_result_def step_def do_include_def
            outer_state_def)
  next
    case None
    with first fuel show ?thesis
      by (auto simp: include_header_def call_def bind_result_def step_def do_include_def
            outer_state_def split: sum.splits pyval.splits)
  qed
  have again: "include_header w fuel' header_name later = Inr (v, later)"
    if "0 < fuel'" and "headers_table later ?key = headers_table self' ?key" for later fuel'
  proof -
    from that(1) obtain m where "fuel' = Suc m" by (cases fuel') auto
    moreover from cached that(2) obtain cached_text
      where "v = PStr cached_text" and "headers_table later ?key = Some cached_text" by auto
    ultimately show ?thesis
      by (simp add: include_header_def call_def bind_result_def step_def do_include_def
            outer_state_def)
  qed
  from cached again show ?thesis by blast
qed

text \<open>A header that is included from outside, twice.\<close>

theorem include_twice_same_text_witness:
  "\<exists>self'.
     include_header (flat_world [(''h.h'', text_of [''int x;''])]) 50 ([DQ] @ ''h.h'' @ [DQ])
         ((new_engine [] True)\<lparr>current_file := Some ''main.c''\<rparr>)
       = Inr (PStr (text_of [''int x ; '', []]), self') \<and>
     0 < (7::nat) \<and>
     headers_table self' (py_slice_1_m1 ([DQ] @ ''h.h'' @ [DQ]))
       = headers_table self' (py_slice_1_m1 ([DQ] @ ''h.h'' @ [DQ])) \<and>
     include_header (flat_world [(''h.h'', text_of [''int x;''])]) 7 ([DQ] @ ''h.h'' @ [DQ]) self'
       = Inr (PStr (text_of [''int x ; '', []]), self') \<and>
     headers_table self' (py_slice_1_m1 ([DQ] @ ''h.h'' @ [DQ]))
       = Some (text_of [''int x ; '', []])"
proof -
  let ?w = "flat_world [(''h.h'', text_of [''int x;''])]"
  let ?h = "[DQ] @ ''h.h'' @ [DQ]"
  let ?e = "(new_engine [] True)\<lparr>current_file := Some ''main.c''\<rparr>"
  have "returned (include_header ?w 50 ?h ?e) = Some (PStr (text_of [''int x ; '', []]))"
    by code_simp
  then obtain self' where first:
    "include_header ?w 50 ?h ?e = Inr (PStr (text_of [''int x ; '', []]), self')"
    by (auto simp: returned_def split: sum.splits)
  from include_twice_same_text [OF first] show ?thesis
    using first by auto
qed

section \<open>The phase filter\<close>

text \<open>
  C3, as stated, fails twice. A file that is one backslash gets its newline appended
  and then loses both characters to the splice: the buffer is empty. And the splice is
  one pass of \<open>str.replace\<close>: in backslash, backslash, newline, newline it removes the
  inner pair and leaves a backslash in front of a newline.
\<close>

theorem phase_filter_counterexample:
  "\<not> ends_with_newline (phase_filter True [BS])
   \<and> occurs [BS, NL] (phase_filter True [BS, BS, NL, NL])"
  by (simp add: phase_filter_def before_splice_def is_source_file_def ends_with_newline_def
        replace_di_trigraph_def di_tri_graph_replace_table_def join_backslash_def)

lemma occurs_sublist: "occurs p s = sublist p s"
  by (induction s) (auto simp: sublist_Cons_right)

lemma occurs_suffix: "suffix r s \<Longrightarrow> occurs p r \<Longrightarrow> occurs p s"
  unfolding occurs_sublist
  by (meson sublist_order.order_trans suffix_imp_sublist)

lemma ends_with_newline_suffix:
  "suffix r s \<Longrightarrow> r \<noteq> [] \<Longrightarrow> ends_with_newline s \<Longrightarrow> ends_with_newline r"
  by (auto simp: ends_with_newline_def suffix_def)

lemma ends_with_newline_Cons:
  "ends_with_newline (c # cs) = (if cs = [] then c = NL else ends_with_newline cs)"
  by (simp add: ends_with_newline_def)

lemma ends_with_newline_append:
  "ends_with_newline s \<Longrightarrow> ends_with_newline (p @ s)"
  by (simp add: ends_with_newline_def)

text \<open>Replacing a text that holds no newline keeps the final newline.\<close>

lemma py_replace_ends_with_newline:
  "old \<noteq> [] \<Longrightarrow> NL \<notin> set old \<Longrightarrow> ends_with_newline s \<Longrightarrow>
     ends_with_newline (py_replace old new s)"
proof (induction s rule: length_induct)
  case (1 s)
  show ?case
  proof (cases s)
    case Nil
    with "1.prems" show ?thesis by (simp add: ends_with_newline_def)
  next
    case (Cons c cs)
    show ?thesis
    proof (cases "prefix old s")
      case True
      then obtain r where r: "s = old @ r" by (auto simp: prefix_def)
      have "r \<noteq> []"
      proof
        assume "r = []"
        with r "1.prems" have "last old = NL" by (simp add: ends_with_newline_def)
        with last_in_set [OF "1.prems"(1)] "1.prems"(2) show False by simp
      qed
      with r "1.prems" have er: "ends_with_newline r" by (simp add: ends_with_newline_def)
      from r "1.prems"(1) have "length r < length s" by simp
      with "1.IH" "1.prems" er have "ends_with_newline (py_replace old new r)" by blast
      moreover have "py_replace old new s = new @ py_replace old new r"
      proof -
        from True Cons "1.prems"(1)
        have "py_replace old new s = new @ py_replace old new (drop (length old) s)" by simp
        moreover from r have "drop (length old) s = r" by simp
        ultimately show ?thesis by simp
      qed
      ultimately show ?thesis by (simp add: ends_with_newline_append)
    next
      case False
      with Cons "1.prems"(1) have eq: "py_replace old new s = c # py_replace old new cs" by simp
      show ?thesis
      proof (cases "cs = []")
        case True
        with Cons "1.prems" eq show ?thesis by (simp add: ends_with_newline_def)
      next
        case nonempty: False
        with Cons "1.prems" have "ends_with_newline cs" by (simp add: ends_with_newline_Cons)
        with "1.IH" "1.prems" Cons have e: "ends_with_newline (py_replace old new cs)" by simp
        then have "py_replace old new cs \<noteq> []" by (auto simp: ends_with_newline_def)
        with e eq show ?thesis by (simp add: ends_with_newline_Cons)
      qed
    qed
  qed
qed

lemma foldl_replace_ends_with_newline:
  "list_all (\<lambda>(old, new). old \<noteq> [] \<and> NL \<notin> set old) table \<Longrightarrow> ends_with_newline s \<Longrightarrow>
     ends_with_newline (foldl (\<lambda>content (old, new). py_replace old new content) s table)"
  by (induction table arbitrary: s) (auto simp: py_replace_ends_with_newline)

lemma before_splice_ends_with_newline: "ends_with_newline (before_splice content)"
proof -
  have "list_all (\<lambda>(old, new). old \<noteq> [] \<and> NL \<notin> set old) di_tri_graph_replace_table"
    by (simp add: di_tri_graph_replace_table_def)
  moreover have "ends_with_newline (if is_source_file content then content else content @ [NL])"
    by (simp add: is_source_file_def ends_with_newline_def)
  ultimately show ?thesis
    unfolding before_splice_def replace_di_trigraph_def
    by (rule foldl_replace_ends_with_newline)
qed

text \<open>The splice, on a buffer that ends with a newline.\<close>

lemma join_backslash_Cons:
  "join_backslash (c # cs) =
     (if c = BS \<and> prefix [NL] cs then join_backslash (tl cs) else c # join_backslash cs)"
  by (cases cs) (auto simp: join_backslash_def)

lemma join_backslash_ends_with_newline:
  "ends_with_newline t \<Longrightarrow> \<not> suffix [BS, NL] t \<Longrightarrow> ends_with_newline (join_backslash t)"
proof (induction t rule: length_induct)
  case (1 t)
  show ?case
  proof (cases t)
    case Nil
    with "1.prems" show ?thesis by (simp add: ends_with_newline_def)
  next
    case (Cons c cs)
    show ?thesis
    proof (cases "c = BS \<and> prefix [NL] cs")
      case True
      then obtain r where r: "t = BS # NL # r" using Cons by (cases cs) auto
      with "1.prems" have "r \<noteq> []" by auto
      with r "1.prems" have "ends_with_newline r" by (simp add: ends_with_newline_def)
      moreover from r "1.prems" have "\<not> suffix [BS, NL] r" by (simp add: suffix_Cons)
      moreover from r have "length r < length t" by simp
      ultimately have "ends_with_newline (join_backslash r)" using "1.IH" by blast
      with r show ?thesis by (simp add: join_backslash_Cons)
    next
      case False
      have eq: "join_backslash t = c # join_backslash cs"
        unfolding Cons join_backslash_Cons using False by (simp only: if_False)
      show ?thesis
      proof (cases "cs = []")
        case True
        with Cons "1.prems" eq show ?thesis by (simp add: ends_with_newline_def join_backslash_def)
      next
        case nonempty: False
        with Cons "1.prems" have "ends_with_newline cs" by (simp add: ends_with_newline_Cons)
        moreover from Cons "1.prems" have "\<not> suffix [BS, NL] cs" by (simp add: suffix_Cons)
        ultimately have e: "ends_with_newline (join_backslash cs)" using "1.IH" Cons by simp
        then have "join_backslash cs \<noteq> []" by (auto simp: ends_with_newline_def)
        with e eq show ?thesis by (simp add: ends_with_newline_Cons)
      qed
    qed
  qed
qed

lemma join_backslash_head:
  "prefix [NL] (join_backslash cs) \<Longrightarrow> prefix [NL] cs \<or> prefix [BS, NL] cs"
  by (cases cs) (auto simp: join_backslash_Cons join_backslash_def split: if_splits)

lemma join_backslash_no_backslash_newline:
  "\<not> occurs [BS, BS, NL] t \<Longrightarrow> \<not> occurs [BS, NL] (join_backslash t)"
proof (induction t rule: length_induct)
  case (1 t)
  show ?case
  proof (cases t)
    case Nil
    then show ?thesis by (simp add: join_backslash_def)
  next
    case (Cons c cs)
    show ?thesis
    proof (cases "c = BS \<and> prefix [NL] cs")
      case True
      then obtain r where r: "t = BS # NL # r" using Cons by (cases cs) auto
      with "1.prems" have "\<not> occurs [BS, BS, NL] r" by simp
      moreover from r have "length r < length t" by simp
      ultimately have "\<not> occurs [BS, NL] (join_backslash r)" using "1.IH" by blast
      with r show ?thesis by (simp add: join_backslash_Cons)
    next
      case False
      have eq: "join_backslash t = c # join_backslash cs"
        unfolding Cons join_backslash_Cons using False by (simp only: if_False)
      from Cons "1.prems" have "\<not> occurs [BS, BS, NL] cs" by simp
      with "1.IH" Cons have rest: "\<not> occurs [BS, NL] (join_backslash cs)" by simp
      have "\<not> prefix [BS, NL] (c # join_backslash cs)"
      proof
        assume p: "prefix [BS, NL] (c # join_backslash cs)"
        then have c: "c = BS" and "prefix [NL] (join_backslash cs)" by auto
        from join_backslash_head [OF this(2)] show False
        proof
          assume "prefix [NL] cs"
          with c False show False by simp
        next
          assume "prefix [BS, NL] cs"
          with c Cons have "prefix [BS, BS, NL] t" by simp
          then have "occurs [BS, BS, NL] t" by (cases t) simp_all
          with "1.prems" show False by blast
        qed
      qed
      with rest eq show ?thesis by simp
    qed
  qed
qed

text \<open>Comment stripping keeps both properties.\<close>

lemma find_close_result:
  "find_close cs = Some r \<Longrightarrow> suffix r cs \<and> cs \<noteq> [] \<and> (r = [] \<longrightarrow> last cs = CHR ''/'')"
proof (induction cs rule: find_close.induct)
  case (1 c d cs)
  show ?case
  proof (cases "c = CHR ''*'' \<and> d = CHR ''/''")
    case True
    with 1 have r: "r = dropWhile (\<lambda>x. x = CHR ''/'') cs" by simp
    have s: "suffix r cs" unfolding r by (rule suffix_dropWhile)
    have "last (c # d # cs) = CHR ''/''" if "r = []"
    proof (cases "cs = []")
      case True
      with \<open>c = CHR ''*'' \<and> d = CHR ''/''\<close> show ?thesis by simp
    next
      case False
      from that r have "\<forall>x\<in>set cs. x = CHR ''/''" by (simp add: dropWhile_eq_Nil_conv)
      with False show ?thesis by simp
    qed
    with s show ?thesis by (auto simp: suffix_Cons)
  next
    case False
    with 1 have "find_close (d # cs) = Some r" by auto
    with 1 False have "suffix r (d # cs) \<and> (r = [] \<longrightarrow> last (d # cs) = CHR ''/'')" by auto
    then show ?thesis by (auto simp: suffix_Cons)
  qed
qed simp_all

lemma strip_comment_ends_with_newline:
  "ends_with_newline s \<Longrightarrow> ends_with_newline (strip_comment s)"
proof (induction s rule: strip_comment.induct)
  case 1
  then show ?case by simp
next
  case (2 c)
  then show ?case by simp
next
  case (3 c d cs)
  from "3.prems" have tail: "ends_with_newline (d # cs)" by (simp add: ends_with_newline_Cons)
  show ?case
  proof (cases "c = CHR ''/'' \<and> d = CHR ''*''")
    case block: True
    show ?thesis
    proof (cases "find_close cs")
      case None
      with block "3.IH" tail have e: "ends_with_newline (strip_comment (d # cs))" by simp
      then have "strip_comment (d # cs) \<noteq> []" by (auto simp: ends_with_newline_def)
      with e block None show ?thesis by (simp add: ends_with_newline_Cons)
    next
      case (Some r)
      from find_close_result [OF Some]
      have fr: "suffix r cs" "cs \<noteq> []" "r = [] \<longrightarrow> last cs = CHR ''/''" by auto
      from "3.prems" fr(2) have lastcs: "last cs = NL" by (simp add: ends_with_newline_def)
      with fr(3) have "r \<noteq> []" by auto
      with fr(1) lastcs have "ends_with_newline r"
        by (auto simp: ends_with_newline_def suffix_def)
      with "3.IH" block Some have e: "ends_with_newline (strip_comment r)" by simp
      then have "strip_comment r \<noteq> []" by (auto simp: ends_with_newline_def)
      with e block Some show ?thesis by (simp add: ends_with_newline_Cons)
    qed
  next
    case noblock: False
    show ?thesis
    proof (cases "c = CHR ''/'' \<and> d = CHR ''/''")
      case line: True
      let ?r = "dropWhile (\<lambda>x. x \<noteq> NL) cs"
      from "3.prems" line have "cs \<noteq> []" by (auto simp: ends_with_newline_def)
      with "3.prems" have lastcs: "last cs = NL" by (simp add: ends_with_newline_def)
      with \<open>cs \<noteq> []\<close> have "NL \<in> set cs" using last_in_set by metis
      then have nonempty: "?r \<noteq> []" by (auto simp: dropWhile_eq_Nil_conv)
      have "suffix ?r cs" by (rule suffix_dropWhile)
      from ends_with_newline_suffix [OF this nonempty] \<open>cs \<noteq> []\<close> lastcs
      have "ends_with_newline ?r" by (simp add: ends_with_newline_def)
      with "3.IH" noblock line have e: "ends_with_newline (strip_comment ?r)" by simp
      then have "strip_comment ?r \<noteq> []" by (auto simp: ends_with_newline_def)
      with e noblock line show ?thesis by (simp add: ends_with_newline_Cons)
    next
      case noline: False
      with noblock "3.IH" tail have e: "ends_with_newline (strip_comment (d # cs))" by simp
      then have "strip_comment (d # cs) \<noteq> []" by (auto simp: ends_with_newline_def)
      moreover from noblock noline
      have "strip_comment (c # d # cs) = c # strip_comment (d # cs)" by auto
      ultimately show ?thesis using e by (simp add: ends_with_newline_Cons)
    qed
  qed
qed

lemma strip_comment_head:
  "prefix [NL] (strip_comment s) \<Longrightarrow> prefix [NL] s"
  by (induction s rule: strip_comment.induct) (auto split: if_splits option.splits)

lemma strip_comment_no_backslash_newline:
  "\<not> occurs [BS, NL] s \<Longrightarrow> \<not> occurs [BS, NL] (strip_comment s)"
proof (induction s rule: strip_comment.induct)
  case 1
  then show ?case by simp
next
  case (2 c)
  then show ?case by simp
next
  case (3 c d cs)
  from "3.prems" have tail: "\<not> occurs [BS, NL] (d # cs)" by simp
  show ?case
  proof (cases "c = CHR ''/'' \<and> d = CHR ''*''")
    case block: True
    show ?thesis
    proof (cases "find_close cs")
      case None
      with block "3.IH" tail have "\<not> occurs [BS, NL] (strip_comment (d # cs))" by simp
      with block None show ?thesis by simp
    next
      case (Some r)
      from find_close_result [OF Some] have "suffix r (c # d # cs)" by (simp add: suffix_Cons)
      with "3.prems" have "\<not> occurs [BS, NL] r" using occurs_suffix by blast
      with "3.IH" block Some have "\<not> occurs [BS, NL] (strip_comment r)" by simp
      with block Some show ?thesis by simp
    qed
  next
    case noblock: False
    show ?thesis
    proof (cases "c = CHR ''/'' \<and> d = CHR ''/''")
      case line: True
      let ?r = "dropWhile (\<lambda>x. x \<noteq> NL) cs"
      have "suffix ?r (c # d # cs)" by (simp add: suffix_Cons suffix_dropWhile)
      with "3.prems" have "\<not> occurs [BS, NL] ?r" using occurs_suffix by blast
      with "3.IH" noblock line have "\<not> occurs [BS, NL] (strip_comment ?r)" by simp
      with noblock line show ?thesis by simp
    next
      case noline: False
      with noblock "3.IH" tail have rest: "\<not> occurs [BS, NL] (strip_comment (d # cs))" by simp
      have "\<not> prefix [BS, NL] (c # strip_comment (d # cs))"
      proof
        assume "prefix [BS, NL] (c # strip_comment (d # cs))"
        then have "c = BS" and "prefix [NL] (strip_comment (d # cs))" by auto
        from this(1) strip_comment_head [OF this(2)] have "prefix [BS, NL] (c # d # cs)" by simp
        with "3.prems" show False by simp
      qed
      moreover from noblock noline
      have "strip_comment (c # d # cs) = c # strip_comment (d # cs)" by auto
      ultimately show ?thesis using rest by simp
    qed
  qed
qed

text \<open>
  C3, amended. \<open>before_splice content\<close> is the buffer as it enters the splice: the
  content, ended by a newline, after the replacement of digraphs and trigraphs. It
  always ends with a newline. The buffer that leaves the phase filter ends with a
  newline when that text does not end with backslash-newline, and holds no
  backslash-newline when that text holds no backslash in front of a backslash-newline;
  with or without comment stripping.
\<close>

theorem phase_filter_postcondition:
  "ends_with_newline (before_splice content) \<and>
   (\<not> suffix [BS, NL] (before_splice content) \<longrightarrow>
      ends_with_newline (phase_filter keep content)) \<and>
   (\<not> occurs [BS, BS, NL] (before_splice content) \<longrightarrow>
      \<not> occurs [BS, NL] (phase_filter keep content))"
proof (intro conjI impI)
  show e: "ends_with_newline (before_splice content)"
    by (rule before_splice_ends_with_newline)
  show "ends_with_newline (phase_filter keep content)"
    if "\<not> suffix [BS, NL] (before_splice content)"
    using join_backslash_ends_with_newline [OF e that]
    by (simp add: phase_filter_def Let_def strip_comment_ends_with_newline)
  show "\<not> occurs [BS, NL] (phase_filter keep content)"
    if "\<not> occurs [BS, BS, NL] (before_splice content)"
    using join_backslash_no_backslash_newline [OF that]
    by (simp add: phase_filter_def Let_def strip_comment_no_backslash_newline)
qed

text \<open>A line spliced by the trigraph for the backslash, and a comment.\<close>

theorem phase_filter_postcondition_witness:
  "\<not> suffix [BS, NL] (before_splice (''a??/'' @ [NL] @ ''b /* c */'')) \<and>
   ends_with_newline (phase_filter False (''a??/'' @ [NL] @ ''b /* c */'')) \<and>
   \<not> occurs [BS, BS, NL] (before_splice (''a??/'' @ [NL] @ ''b /* c */'')) \<and>
   \<not> occurs [BS, NL] (phase_filter False (''a??/'' @ [NL] @ ''b /* c */'')) \<and>
   phase_filter False (''a??/'' @ [NL] @ ''b /* c */'') = ''ab  '' @ [NL]"
proof -
  have b: "before_splice (''a??/'' @ [NL] @ ''b /* c */'') = ''a'' @ [BS, NL] @ ''b /* c */'' @ [NL]"
    by (simp add: before_splice_def is_source_file_def ends_with_newline_def
          replace_di_trigraph_def di_tri_graph_replace_table_def)
  have p: "phase_filter False (''a??/'' @ [NL] @ ''b /* c */'') = ''ab  '' @ [NL]"
    unfolding phase_filter_def Let_def b by (simp add: join_backslash_def)
  have s: "\<not> suffix [BS, NL] (before_splice (''a??/'' @ [NL] @ ''b /* c */''))"
    unfolding b by (simp add: suffix_Cons)
  have o: "\<not> occurs [BS, BS, NL] (before_splice (''a??/'' @ [NL] @ ''b /* c */''))"
    unfolding b by simp
  from phase_filter_postcondition [of "''a??/'' @ [NL] @ ''b /* c */''" False] s o p
  show ?thesis by simp
qed

section \<open>True division\<close>















end
